theory Spec2Isabelle
  imports Main
begin

section \<open>Strings and characters\<close>

text \<open>
  The extraction engine of \<^verbatim>\<open>src/services/aiService.ts\<close> works on one JavaScript
  string. A string is modelled as a \<^typ>\<open>string\<close>, each character standing for one
  UTF-16 code unit below 256. The character classes are those of a JavaScript
  regular expression without the \<^verbatim>\<open>u\<close> flag: \<^verbatim>\<open>\d\<close> is 0-9, \<^verbatim>\<open>\w\<close> is
  A-Z, a-z, 0-9 and the underscore, and \<^verbatim>\<open>\s\<close> is tab, line feed, vertical tab, form
  feed, carriage return, space and the no-break space (the only white space below 256).
\<close>

definition code :: "char \<Rightarrow> nat" where
  "code c = of_char c"

definition is_digit :: "char \<Rightarrow> bool" where
  "is_digit c = (48 \<le> code c \<and> code c \<le> 57)"

definition is_space :: "char \<Rightarrow> bool" where
  "is_space c = ((9 \<le> code c \<and> code c \<le> 13) \<or> code c = 32 \<or> code c = 160)"

definition is_word :: "char \<Rightarrow> bool" where
  "is_word c = ((48 \<le> code c \<and> code c \<le> 57) \<or> (65 \<le> code c \<and> code c \<le> 90)
     \<or> code c = 95 \<or> (97 \<le> code c \<and> code c \<le> 122))"

text \<open>
  \<^verbatim>\<open>String.prototype.toLowerCase\<close> on code units below 256: A-Z and the accented
  capitals 192-222 (but not the multiplication sign 215) move up by 32.
\<close>

definition lower_char :: "char \<Rightarrow> char" where
  "lower_char c = (if (65 \<le> code c \<and> code c \<le> 90) \<or> (192 \<le> code c \<and> code c \<le> 222 \<and> code c \<noteq> 215)
     then char_of (code c + 32) else c)"

definition upper_char :: "char \<Rightarrow> char" where
  "upper_char c = (if (97 \<le> code c \<and> code c \<le> 122) \<or> (224 \<le> code c \<and> code c \<le> 254 \<and> code c \<noteq> 247)
     then char_of (code c - 32) else c)"

definition toLowerCase :: "string \<Rightarrow> string" where
  "toLowerCase s = map lower_char s"

text \<open>
  \<^verbatim>\<open>toUpperCase\<close> is only applied to a regular-expression capture, which holds word
  characters; the two code units below 256 whose upper case is not a single code unit
  below 256 (181 and 255, and 223 which becomes two letters) cannot occur there.
\<close>

definition toUpperCase :: "string \<Rightarrow> string" where
  "toUpperCase s = map upper_char s"

section \<open>Regular expressions\<close>

text \<open>
  The patterns of the source use literals, character classes, alternation, capture
  groups, the word boundary \<^verbatim>\<open>\b\<close>, and greedy quantifiers applied to a single
  character class. Every capture group stands in sequence at the top of its pattern,
  none under a quantifier or inside an alternative, so the captures of a match are the
  list of the group texts in the order the groups are written.
\<close>

datatype atom = Digit | Space | Word | Lit char

datatype cls = In "atom list" | NotIn "atom list"

datatype re =
    Chr cls
  | Str string
  | Seq re re
  | Alt re re
  | Rep nat "nat option" cls
  | Grp re
  | WordB

fun atom_has :: "bool \<Rightarrow> atom \<Rightarrow> char \<Rightarrow> bool" where
  "atom_has ci Digit c = is_digit c"
| "atom_has ci Space c = is_space c"
| "atom_has ci Word c = is_word c"
| "atom_has ci (Lit a) c = (if ci then lower_char a = lower_char c else a = c)"

fun cls_has :: "bool \<Rightarrow> cls \<Rightarrow> char \<Rightarrow> bool" where
  "cls_has ci (In as) c = list_ex (\<lambda>a. atom_has ci a c) as"
| "cls_has ci (NotIn as) c = (\<not> list_ex (\<lambda>a. atom_has ci a c) as)"

text \<open>
  \<open>rmatch ci r pv xs\<close> matches the pattern \<open>r\<close> at the current position, where
  \<open>pv\<close> is the character before it (\<open>None\<close> at the start of the string) and \<open>xs\<close>
  the rest of the input; \<open>ci\<close> is the flag \<^verbatim>\<open>i\<close>. It returns every way the pattern
  can match there, in the order a backtracking matcher tries them, so the head of the
  list is the match JavaScript reports. A result holds the captures, the text matched,
  the last character before the end of the match, and the input left.
\<close>

type_synonym mres = "string list \<times> string \<times> char option \<times> string"

fun str_match :: "bool \<Rightarrow> string \<Rightarrow> char option \<Rightarrow> string \<Rightarrow> mres list" where
  "str_match ci [] pv xs = [([], [], pv, xs)]"
| "str_match ci (a # as) pv [] = []"
| "str_match ci (a # as) pv (x # xs) =
     (if atom_has ci (Lit a) x
      then map (\<lambda>(cs, t, pv', xs'). (cs, x # t, pv', xs')) (str_match ci as (Some x) xs)
      else [])"

text \<open>A greedy quantifier on a character class: the longest run first.\<close>

fun rep_cls :: "bool \<Rightarrow> cls \<Rightarrow> nat \<Rightarrow> nat option \<Rightarrow> char option \<Rightarrow> string \<Rightarrow> mres list" where
  "rep_cls ci k lo hi pv [] = (if lo = 0 then [([], [], pv, [])] else [])"
| "rep_cls ci k lo hi pv (x # xs) =
     (if hi \<noteq> Some 0 \<and> cls_has ci k x
      then map (\<lambda>(cs, t, pv', xs'). (cs, x # t, pv', xs'))
             (rep_cls ci k (lo - 1) (map_option (\<lambda>h. h - 1) hi) (Some x) xs)
      else [])
     @ (if lo = 0 then [([], [], pv, x # xs)] else [])"

definition is_word_opt :: "char option \<Rightarrow> bool" where
  "is_word_opt pv = (case pv of None \<Rightarrow> False | Some c \<Rightarrow> is_word c)"

definition is_word_hd :: "string \<Rightarrow> bool" where
  "is_word_hd xs = (case xs of [] \<Rightarrow> False | x # _ \<Rightarrow> is_word x)"

fun rmatch :: "bool \<Rightarrow> re \<Rightarrow> char option \<Rightarrow> string \<Rightarrow> mres list" where
  "rmatch ci (Chr k) pv [] = []"
| "rmatch ci (Chr k) pv (x # xs) = (if cls_has ci k x then [([], [x], Some x, xs)] else [])"
| "rmatch ci (Str s) pv xs = str_match ci s pv xs"
| "rmatch ci (Seq a b) pv xs =
     concat (map (\<lambda>(cs, t, pv', xs').
                    map (\<lambda>(cs2, t2, pv2, xs2). (cs @ cs2, t @ t2, pv2, xs2)) (rmatch ci b pv' xs'))
                 (rmatch ci a pv xs))"
| "rmatch ci (Alt a b) pv xs = rmatch ci a pv xs @ rmatch ci b pv xs"
| "rmatch ci (Rep lo hi k) pv xs = rep_cls ci k lo hi pv xs"
| "rmatch ci (Grp a) pv xs = map (\<lambda>(cs, t, pv', xs'). (t # cs, t, pv', xs')) (rmatch ci a pv xs)"
| "rmatch ci WordB pv xs = (if is_word_opt pv \<noteq> is_word_hd xs then [([], [], pv, xs)] else [])"

text \<open>
  The match at one position: the match array (the whole match, then the captures).
\<close>

definition match_at :: "bool \<Rightarrow> re \<Rightarrow> char option \<Rightarrow> string \<Rightarrow> string list option" where
  "match_at ci r pv xs =
     (case rmatch ci r pv xs of
        [] \<Rightarrow> None
      | (cs, t, pv', xs') # _ \<Rightarrow> Some (t # cs))"

text \<open>
  Reading a match array: \<^verbatim>\<open>m[0]\<close> is the whole match; \<^verbatim>\<open>m[i]\<close> beyond the end of
  the array is \<^verbatim>\<open>undefined\<close>, here \<open>None\<close>.
\<close>

definition whole :: "string list \<Rightarrow> string" where
  "whole m = (case m of [] \<Rightarrow> [] | w # _ \<Rightarrow> w)"

fun at :: "'a list \<Rightarrow> nat \<Rightarrow> 'a option" where
  "at [] i = None"
| "at (x # xs) i = (if i = 0 then Some x else at xs (i - 1))"

text \<open>
  \<^verbatim>\<open>str.match(re)\<close> without the \<^verbatim>\<open>g\<close> flag: the leftmost match, or \<open>None\<close> for
  \<^verbatim>\<open>null\<close>.
\<close>

fun search :: "bool \<Rightarrow> re \<Rightarrow> char option \<Rightarrow> string \<Rightarrow> string list option" where
  "search ci r pv [] = match_at ci r pv []"
| "search ci r pv (x # xs) =
     (case match_at ci r pv (x # xs) of
        Some m \<Rightarrow> Some m
      | None \<Rightarrow> search ci r (Some x) xs)"

definition re_match :: "bool \<Rightarrow> re \<Rightarrow> string \<Rightarrow> string list option" where
  "re_match ci r s = search ci r None s"

text \<open>
  All matches, left to right and not overlapping, as \<^verbatim>\<open>matchAll\<close> and the \<^verbatim>\<open>g\<close>
  flag find them: after a match of \<open>n\<close> characters the next attempt starts \<open>n\<close>
  characters on (one character on after an empty match). \<open>skip\<close> counts the
  characters of the last match that are still to be passed.
\<close>

fun scan :: "bool \<Rightarrow> re \<Rightarrow> nat \<Rightarrow> char option \<Rightarrow> string \<Rightarrow> string list list" where
  "scan ci r skip pv [] =
     (if skip = 0 then (case match_at ci r pv [] of None \<Rightarrow> [] | Some m \<Rightarrow> [m]) else [])"
| "scan ci r skip pv (x # xs) =
     (if 0 < skip then scan ci r (skip - 1) (Some x) xs
      else (case match_at ci r pv (x # xs) of
              None \<Rightarrow> scan ci r 0 (Some x) xs
            | Some m \<Rightarrow> m # scan ci r (length (whole m) - 1) (Some x) xs))"

definition matchAll :: "bool \<Rightarrow> re \<Rightarrow> string \<Rightarrow> string list list" where
  "matchAll ci r s = scan ci r 0 None s"

text \<open>
  \<^verbatim>\<open>str.match(re)\<close> with the \<^verbatim>\<open>g\<close> flag returns the whole matches only, without
  their captures (and \<^verbatim>\<open>null\<close>, here the empty list, when there is none).
\<close>

definition match_g :: "bool \<Rightarrow> re \<Rightarrow> string \<Rightarrow> string list" where
  "match_g ci r s = map whole (matchAll ci r s)"

text \<open>
  \<^verbatim>\<open>str.replace(re, repl)\<close> with the \<^verbatim>\<open>g\<close> flag; \<open>f\<close> computes the replacement
  from the match array.
\<close>

fun subst :: "bool \<Rightarrow> re \<Rightarrow> (string list \<Rightarrow> string) \<Rightarrow> nat \<Rightarrow> char option \<Rightarrow> string \<Rightarrow> string" where
  "subst ci r f skip pv [] =
     (if skip = 0 then (case match_at ci r pv [] of None \<Rightarrow> [] | Some m \<Rightarrow> f m) else [])"
| "subst ci r f skip pv (x # xs) =
     (if 0 < skip then subst ci r f (skip - 1) (Some x) xs
      else (case match_at ci r pv (x # xs) of
              None \<Rightarrow> x # subst ci r f 0 (Some x) xs
            | Some m \<Rightarrow>
                if whole m = [] then f m @ x # subst ci r f 0 (Some x) xs
                else f m @ subst ci r f (length (whole m) - 1) (Some x) xs))"

definition replace_g :: "bool \<Rightarrow> re \<Rightarrow> (string list \<Rightarrow> string) \<Rightarrow> string \<Rightarrow> string" where
  "replace_g ci r f s = subst ci r f 0 None s"

text \<open>\<^verbatim>\<open>str.replace(re, repl)\<close> without the \<^verbatim>\<open>g\<close> flag replaces the leftmost match only.\<close>

fun subst1 :: "bool \<Rightarrow> re \<Rightarrow> (string list \<Rightarrow> string) \<Rightarrow> char option \<Rightarrow> string \<Rightarrow> string" where
  "subst1 ci r f pv [] = (case match_at ci r pv [] of None \<Rightarrow> [] | Some m \<Rightarrow> f m)"
| "subst1 ci r f pv (x # xs) =
     (case match_at ci r pv (x # xs) of
        None \<Rightarrow> x # subst1 ci r f (Some x) xs
      | Some m \<Rightarrow> f m @ drop (length (whole m)) (x # xs))"

definition replace1 :: "bool \<Rightarrow> re \<Rightarrow> (string list \<Rightarrow> string) \<Rightarrow> string \<Rightarrow> string" where
  "replace1 ci r f s = subst1 ci r f None s"

section \<open>String methods\<close>

fun starts_with :: "string \<Rightarrow> string \<Rightarrow> bool" where
  "starts_with xs [] = True"
| "starts_with [] (p # ps) = False"
| "starts_with (x # xs) (p # ps) = (x = p \<and> starts_with xs ps)"

text \<open>\<^verbatim>\<open>str.indexOf(sub)\<close>, counting from \<open>i\<close>; \<open>-1\<close> when \<open>sub\<close> does not occur.\<close>

fun index_from :: "string \<Rightarrow> string \<Rightarrow> int \<Rightarrow> int" where
  "index_from [] sub i = (if sub = [] then i else - 1)"
| "index_from (x # xs) sub i = (if starts_with (x # xs) sub then i else index_from xs sub (i + 1))"

definition indexOf :: "string \<Rightarrow> string \<Rightarrow> int" where
  "indexOf s sub = index_from s sub 0"

definition str_includes :: "string \<Rightarrow> string \<Rightarrow> bool" where
  "str_includes s sub = (indexOf s sub \<noteq> - 1)"

text \<open>
  \<^verbatim>\<open>str.substring(a, b)\<close>: both indices are clamped to the string and swapped when
  \<open>a\<close> is the larger.
\<close>

definition substring :: "string \<Rightarrow> int \<Rightarrow> int \<Rightarrow> string" where
  "substring s a b =
     (let n = int (length s);
          a' = min (max a 0) n;
          b' = min (max b 0) n
      in take (nat (max a' b' - min a' b')) (drop (nat (min a' b')) s))"

text \<open>\<^verbatim>\<open>str.split(c)\<close> for a one-character separator.\<close>

fun split_on :: "char \<Rightarrow> string \<Rightarrow> string list" where
  "split_on c [] = [[]]"
| "split_on c (x # xs) =
     (if x = c then [] # split_on c xs
      else (case split_on c xs of [] \<Rightarrow> [[x]] | h # t \<Rightarrow> (x # h) # t))"

text \<open>\<^verbatim>\<open>str.slice(-1)\<close>: the last character, or the empty string.\<close>

fun slice_last :: "string \<Rightarrow> string" where
  "slice_last [] = []"
| "slice_last [x] = [x]"
| "slice_last (x # y # ys) = slice_last (y # ys)"

fun ends_with1 :: "string \<Rightarrow> char \<Rightarrow> bool" where
  "ends_with1 s c = (slice_last s = [c])"

text \<open>\<^verbatim>\<open>str.padStart(2, '0')\<close>.\<close>

fun padStart2 :: "string \<Rightarrow> string" where
  "padStart2 [] = ''00''"
| "padStart2 [x] = [CHR ''0'', x]"
| "padStart2 (x # y # ys) = x # y # ys"

section \<open>Numbers\<close>

text \<open>
  The numbers of the program are the results of \<^verbatim>\<open>Number(s)\<close> on pieces of matched
  text, and constants. \<^verbatim>\<open>Number\<close> is applied to captures and to whole matches, which
  are digits, a run of digits with one dot, or text with a letter or a separator in it;
  on these, and on the empty string, it is: the value of a decimal literal, 0 for the
  empty string, and \<^verbatim>\<open>NaN\<close> for anything else. (Signs, exponents, hexadecimal
  literals and surrounding white space, which \<^verbatim>\<open>Number\<close> also reads, need a character
  that no pattern of the program lets into a match that is otherwise numeric.) A number is
  \<^verbatim>\<open>NaN\<close>, a natural number, or a decimal fraction \<open>Dec n f\<close> with integer part
  \<open>n\<close> and fraction digits \<open>f\<close> (not empty, not ending in 0). \<^verbatim>\<open>undefined\<close>, read
  as a number, is \<^verbatim>\<open>NaN\<close>.
\<close>

datatype jsnum = NaN | Num nat | Dec nat string

definition digit_val :: "char \<Rightarrow> nat" where
  "digit_val c = code c - 48"

definition nat_of_digits :: "string \<Rightarrow> nat" where
  "nat_of_digits s = foldl (\<lambda>a c. 10 * a + digit_val c) 0 s"

fun strip_zeros_rev :: "string \<Rightarrow> string" where
  "strip_zeros_rev [] = []"
| "strip_zeros_rev (x # xs) = (if x = CHR ''0'' then strip_zeros_rev xs else x # xs)"

definition strip_zeros :: "string \<Rightarrow> string" where
  "strip_zeros s = rev (strip_zeros_rev (rev s))"

definition Number_js :: "string \<Rightarrow> jsnum" where
  "Number_js s =
     (if list_all is_digit s then Num (nat_of_digits s)
      else (case split_on CHR ''.'' s of
              [a, b] \<Rightarrow>
                if list_all is_digit a \<and> list_all is_digit b \<and> \<not> (a = [] \<and> b = [])
                then (if strip_zeros b = [] then Num (nat_of_digits a)
                      else Dec (nat_of_digits a) (strip_zeros b))
                else NaN
            | _ \<Rightarrow> NaN))"

definition Number_u :: "string option \<Rightarrow> jsnum" where
  "Number_u v = (case v of None \<Rightarrow> NaN | Some s \<Rightarrow> Number_js s)"

text \<open>\<^verbatim>\<open>n.toString()\<close>.\<close>

definition digit_char :: "nat \<Rightarrow> char" where
  "digit_char d = char_of (48 + d)"

fun digits_of :: "nat \<Rightarrow> string" where
  "digits_of n = (if n < 10 then [digit_char n] else digits_of (n div 10) @ [digit_char (n mod 10)])"

fun toString :: "jsnum \<Rightarrow> string" where
  "toString NaN = ''NaN''"
| "toString (Num n) = digits_of n"
| "toString (Dec n f) = digits_of n @ ''.'' @ f"

text \<open>
  Comparisons with a whole constant; every comparison with \<^verbatim>\<open>NaN\<close> is false. The
  fraction of \<open>Dec n f\<close> is strictly between 0 and 1.
\<close>

fun ge_c :: "jsnum \<Rightarrow> nat \<Rightarrow> bool" where
  "ge_c NaN c = False"
| "ge_c (Num n) c = (c \<le> n)"
| "ge_c (Dec n f) c = (c \<le> n)"

fun le_c :: "jsnum \<Rightarrow> nat \<Rightarrow> bool" where
  "le_c NaN c = False"
| "le_c (Num n) c = (n \<le> c)"
| "le_c (Dec n f) c = (n < c)"

fun lt_c :: "jsnum \<Rightarrow> nat \<Rightarrow> bool" where
  "lt_c NaN c = False"
| "lt_c (Num n) c = (n < c)"
| "lt_c (Dec n f) c = (n < c)"

fun gt_c :: "jsnum \<Rightarrow> nat \<Rightarrow> bool" where
  "gt_c NaN c = False"
| "gt_c (Num n) c = (c < n)"
| "gt_c (Dec n f) c = (c \<le> n)"

definition in_range :: "nat \<Rightarrow> nat \<Rightarrow> jsnum \<Rightarrow> bool" where
  "in_range lo hi x = (ge_c x lo \<and> le_c x hi)"

text \<open>\<^verbatim>\<open>!x\<close> for a number: 0 and \<^verbatim>\<open>NaN\<close> are falsy. \<^verbatim>\<open>!s\<close> for a string: the empty string.\<close>

fun falsy :: "jsnum \<Rightarrow> bool" where
  "falsy NaN = True"
| "falsy (Num n) = (n = 0)"
| "falsy (Dec n f) = False"

definition truthy :: "jsnum \<Rightarrow> bool" where
  "truthy x = (\<not> falsy x)"

text \<open>
  \<^verbatim>\<open>a !== b\<close> (where \<^verbatim>\<open>NaN\<close> differs from itself) and \<^verbatim>\<open>arr.includes(x)\<close> (where it
  does not).
\<close>

fun strict_neq :: "jsnum \<Rightarrow> jsnum \<Rightarrow> bool" where
  "strict_neq NaN b = True"
| "strict_neq a NaN = True"
| "strict_neq a b = (a \<noteq> b)"

definition arr_includes :: "jsnum list \<Rightarrow> jsnum \<Rightarrow> bool" where
  "arr_includes xs x = (x \<in> set xs)"

text \<open>
  \<^verbatim>\<open>a < b\<close> on numbers, for the sort comparators. Fraction digits compare as
  decimal fractions do: digit by digit, a proper prefix being the smaller.
\<close>

fun frac_less :: "string \<Rightarrow> string \<Rightarrow> bool" where
  "frac_less [] [] = False"
| "frac_less [] (y # ys) = True"
| "frac_less (x # xs) [] = False"
| "frac_less (x # xs) (y # ys) = (code x < code y \<or> (x = y \<and> frac_less xs ys))"

fun js_less :: "jsnum \<Rightarrow> jsnum \<Rightarrow> bool" where
  "js_less (Num a) (Num b) = (a < b)"
| "js_less (Num a) (Dec b g) = (a \<le> b)"
| "js_less (Dec a f) (Num b) = (a < b)"
| "js_less (Dec a f) (Dec b g) = (a < b \<or> (a = b \<and> frac_less f g))"
| "js_less NaN b = False"
| "js_less a NaN = False"

text \<open>The sign of \<^verbatim>\<open>a - b\<close>; a comparator result of \<^verbatim>\<open>NaN\<close> counts as 0 in a sort.\<close>

definition sub_sign :: "jsnum \<Rightarrow> jsnum \<Rightarrow> int" where
  "sub_sign a b = (if js_less a b then - 1 else if js_less b a then 1 else 0)"

text \<open>
  \<^verbatim>\<open>arr.sort(cmp)\<close> is stable; for the comparators of the program, which order
  numbers consistently, the result does not depend on the algorithm. It is modelled
  as an insertion sort.
\<close>

fun insert_cmp :: "(jsnum \<Rightarrow> jsnum \<Rightarrow> int) \<Rightarrow> jsnum \<Rightarrow> jsnum list \<Rightarrow> jsnum list" where
  "insert_cmp cmp x [] = [x]"
| "insert_cmp cmp x (y # ys) = (if cmp x y \<le> 0 then x # y # ys else y # insert_cmp cmp x ys)"

definition js_sort :: "(jsnum \<Rightarrow> jsnum \<Rightarrow> int) \<Rightarrow> jsnum list \<Rightarrow> jsnum list" where
  "js_sort cmp xs = foldr (insert_cmp cmp) xs []"

text \<open>
  \<^verbatim>\<open>arr[i]\<close> on an array of numbers; beyond the end it is \<^verbatim>\<open>undefined\<close>, which
  compares like \<^verbatim>\<open>NaN\<close>. The program assigns such a read to a variable only under a
  test of the array's length or of the value's range.
\<close>

definition idx :: "jsnum list \<Rightarrow> nat \<Rightarrow> jsnum" where
  "idx xs i = (case at xs i of None \<Rightarrow> NaN | Some v \<Rightarrow> v)"

section \<open>The normalizer\<close>

text \<open>Building patterns: a sequence, a choice of literals, and the usual quantifiers.\<close>

fun seqs :: "re list \<Rightarrow> re" where
  "seqs [] = Str []"
| "seqs [r] = r"
| "seqs (r # rs) = Seq r (seqs rs)"

fun alts :: "re list \<Rightarrow> re" where
  "alts [] = Chr (In [])"
| "alts [r] = r"
| "alts (r # rs) = Alt r (alts rs)"

definition lits :: "string list \<Rightarrow> re" where
  "lits ss = alts (map Str ss)"

definition digits :: "nat \<Rightarrow> nat \<Rightarrow> re" where
  "digits lo hi = Rep lo (Some hi) (In [Digit])"

definition ws0 :: re where
  "ws0 = Rep 0 None (In [Space])"

definition ws1 :: re where
  "ws1 = Rep 1 None (In [Space])"

definition cap :: "string list \<Rightarrow> nat \<Rightarrow> string" where
  "cap m i = (case at m i of None \<Rightarrow> [] | Some s \<Rightarrow> s)"

text \<open>The noise characters: \<^verbatim>\<open>[^\w\s\/\-\:\.]\<close>.\<close>

definition re_noise :: re where
  "re_noise = Chr (NotIn [Word, Space, Lit CHR ''/'', Lit CHR ''-'', Lit CHR '':'', Lit CHR ''.''])"

text \<open>
  The characters of a normalized text: lower-case letters, digits, the underscore, the
  space, and the four separators that are no noise.
\<close>

definition normal_char :: "char \<Rightarrow> bool" where
  "normal_char c =
     ((97 \<le> code c \<and> code c \<le> 122) \<or> is_digit c \<or> c = CHR ''_'' \<or> c = CHR '' ''
      \<or> c = CHR ''/'' \<or> c = CHR ''-'' \<or> c = CHR '':'' \<or> c = CHR ''.'')"

text \<open>
  The characters left by the first two replacements: word characters, the space and
  the four separators.
\<close>

definition kept_char :: "char \<Rightarrow> bool" where
  "kept_char c =
     (is_word c \<or> c = CHR '' '' \<or> c = CHR ''/'' \<or> c = CHR ''-'' \<or> c = CHR '':'' \<or> c = CHR ''.'')"

text \<open>
  \<^verbatim>\<open>preprocessText\<close>: fourteen global replacements, then lower case. In a replacement
  string \<^verbatim>\<open>$1\<close> is the first capture.
\<close>

definition preprocessText :: "string \<Rightarrow> string" where
  "preprocessText text =
     (let t = replace_g False ws1 (\<lambda>m. '' '') text;
          t = replace_g False re_noise (\<lambda>m. '' '') t;
          t = replace_g False (seqs [WordB, Str ''0'', Grp (Chr (In [Digit])), WordB]) (\<lambda>m. cap m 1) t;
          t = replace_g True (seqs [WordB, Str ''sys'', Grp (digits 2 3), WordB]) (\<lambda>m. ''sys '' @ cap m 1) t;
          t = replace_g True (seqs [WordB, Str ''dia'', Grp (digits 2 3), WordB]) (\<lambda>m. ''dia '' @ cap m 1) t;
          t = replace_g True (seqs [WordB, Str ''s'', Grp (digits 2 3), WordB]) (\<lambda>m. ''s '' @ cap m 1) t;
          t = replace_g True (seqs [WordB, Str ''d'', Grp (digits 2 3), WordB]) (\<lambda>m. ''d '' @ cap m 1) t;
          t = replace_g True (seqs [WordB, Str ''minig'', WordB]) (\<lambda>m. ''mmhg'') t;
          t = replace_g False (seqs [WordB, Str ''1+'', WordB]) (\<lambda>m. []) t;
          t = replace_g False (seqs [WordB, Str ''+'', WordB]) (\<lambda>m. []) t;
          t = replace_g False (seqs [WordB, Str ''%'', WordB]) (\<lambda>m. []) t;
          t = replace_g True (seqs [WordB, Str ''cm'', WordB]) (\<lambda>m. ''7m'') t;
          t = replace_g True (seqs [WordB, Str ''c1'', WordB]) (\<lambda>m. ''7m'') t;
          t = replace_g True (seqs [WordB, Str ''c9'', WordB]) (\<lambda>m. ''7m'') t;
          t = replace_g True (seqs [WordB, Str ''mid'', WordB]) (\<lambda>m. ''7m'') t
      in toLowerCase t)"

section \<open>The field extractors\<close>

text \<open>
  The variables of \<^verbatim>\<open>extractDataFromText\<close>, which are also the fields of the record it
  returns.
\<close>

record reading =
  day :: jsnum
  month :: jsnum
  time :: string
  period :: string
  sys :: jsnum
  dia :: jsnum
  pulse :: jsnum

definition initial :: reading where
  "initial = \<lparr>day = Num 0, month = Num 0, time = [], period = [], sys = Num 0, dia = Num 0, pulse = Num 0\<rparr>"

subsection \<open>The pattern tables\<close>

text \<open>
  The month patterns; the flag marks the pattern whose source contains
  \<^verbatim>\<open>cm|7m|mid\<close>, which the loop treats apart.
\<close>

definition patterns_month :: "(re \<times> bool) list" where
  "patterns_month =
     [(seqs [WordB, Grp (digits 1 2), ws0, lits [''month'', ''mo'', ''m''], WordB], False),
      (seqs [WordB, lits [''month'', ''mo'', ''m''], ws0, Grp (digits 1 2), WordB], False),
      (seqs [WordB, Grp (digits 1 2), Str ''m'', WordB], False),
      (seqs [WordB, lits [''cm'', ''7m'', ''mid''], WordB], True),
      (seqs [WordB, Grp (digits 1 2), ws0, Str ''/'', ws0, digits 1 2, WordB], False),
      (seqs [WordB, Grp (digits 1 2), ws0, Str ''-'', ws0, digits 1 2, WordB], False)]"

definition patterns_day :: "re list" where
  "patterns_day =
     [seqs [WordB, Grp (digits 1 2), ws0, lits [''day'', ''d''], WordB],
      seqs [WordB, lits [''day'', ''d''], ws0, Grp (digits 1 2), WordB],
      seqs [WordB, Grp (digits 1 2), Str ''d'', WordB],
      seqs [WordB, Grp (digits 1 2), ws0, Str ''/'', ws0, digits 1 2, WordB],
      seqs [WordB, Grp (digits 1 2), ws0, Str ''-'', ws0, digits 1 2, WordB]]"

definition am_pm :: re where
  "am_pm = Grp (lits [''am'', ''pm''])"

definition patterns_time :: "re list" where
  "patterns_time =
     [seqs [WordB, Grp (digits 1 2), Str '':'', Grp (digits 2 2), ws0, am_pm, WordB],
      seqs [WordB, Grp (digits 1 2), Str '':'', Grp (digits 2 2), WordB],
      seqs [WordB, Grp (digits 1 2), ws0, am_pm, WordB],
      seqs [WordB, am_pm, ws0, Grp (digits 1 2), Str '':'', Grp (digits 2 2), WordB],
      seqs [WordB, Grp (digits 1 2), Str ''.'', Grp (digits 2 2), ws0, am_pm, WordB]]"

definition sep_opt :: re where
  "sep_opt = Rep 0 (Some 1) (In [Lit CHR '':'', Lit CHR ''-''])"

definition patterns_systolic :: "re list" where
  "patterns_systolic =
     [seqs [WordB, lits [''systolic'', ''sys'', ''s''], ws0, sep_opt, ws0, Grp (digits 2 3), WordB],
      seqs [WordB, lits [''systolic'', ''sys'', ''s''], Grp (digits 2 3), WordB],
      seqs [WordB, Grp (digits 2 3), ws0, Str ''/'', ws0, digits 2 3, WordB],
      seqs [WordB, Grp (digits 2 3), ws0, lits [''systolic'', ''sys'', ''s''], WordB],
      seqs [WordB, lits [''bp'', ''blood pressure''], ws0, Grp (digits 2 3), ws0, Str ''/'', ws0, digits 2 3, WordB],
      seqs [WordB, lits [''top'', ''upper''], ws0, Grp (digits 2 3), WordB]]"

definition patterns_diastolic :: "re list" where
  "patterns_diastolic =
     [seqs [WordB, lits [''diastolic'', ''dia'', ''d''], ws0, sep_opt, ws0, Grp (digits 2 3), WordB],
      seqs [WordB, lits [''diastolic'', ''dia'', ''d''], Grp (digits 2 3), WordB],
      seqs [WordB, digits 2 3, ws0, Str ''/'', ws0, Grp (digits 2 3), WordB],
      seqs [WordB, Grp (digits 2 3), ws0, lits [''diastolic'', ''dia'', ''d''], WordB],
      seqs [WordB, lits [''bp'', ''blood pressure''], ws0, digits 2 3, ws0, Str ''/'', ws0, Grp (digits 2 3), WordB],
      seqs [WordB, lits [''bottom'', ''lower''], ws0, Grp (digits 2 3), WordB]]"

definition patterns_pulse :: "re list" where
  "patterns_pulse =
     [seqs [WordB, lits [''pulse'', ''pul'', ''p''], ws0, sep_opt, ws0, Grp (digits 2 3), ws0,
            lits [''bpm'', ''min'', ''/min''], WordB],
      seqs [WordB, Grp (digits 2 3), ws0, lits [''bpm'', ''pulse'', ''pul'', ''p''], WordB],
      seqs [WordB, lits [''heart rate'', ''hr''], ws0, sep_opt, ws0, Grp (digits 2 3), WordB],
      seqs [WordB, Grp (digits 2 3), ws0, lits [''bpm'', ''/min''], WordB],
      seqs [WordB, lits [''rate'', ''r''], ws0, Grp (digits 2 3), WordB]]"

definition patterns_period :: "re list" where
  "patterns_period =
     [seqs [WordB, am_pm, WordB],
      seqs [WordB, lits [''morning'', ''am''], WordB],
      seqs [WordB, lits [''afternoon'', ''pm''], WordB],
      seqs [WordB, lits [''a.m.'', ''p.m.''], WordB]]"

text \<open>The patterns that collect numbers from the whole text.\<close>

definition re_num12 :: re where
  "re_num12 = seqs [WordB, Grp (digits 1 2), WordB]"

definition re_num23 :: re where
  "re_num23 = seqs [WordB, Grp (digits 2 3), WordB]"

definition re_num2 :: re where
  "re_num2 = seqs [WordB, Grp (digits 2 2), WordB]"

definition re_num3 :: re where
  "re_num3 = seqs [WordB, Grp (digits 3 3), WordB]"

definition re_clock :: re where
  "re_clock = seqs [WordB, digits 1 2, Str '':'', digits 2 2, WordB]"

definition all_numbers :: "re \<Rightarrow> string \<Rightarrow> jsnum list" where
  "all_numbers r pt = map Number_js (match_g False r pt)"

text \<open>
  The hours and minutes of every \<^verbatim>\<open>H:MM\<close> token. The source destructures the two
  parts of \<^verbatim>\<open>time.split(':')\<close>; a token of \<open>re_clock\<close> has exactly two.
\<close>

definition time_values :: "string \<Rightarrow> jsnum list" where
  "time_values pt =
     concat (map (\<lambda>t. take 2 (map Number_js (split_on CHR '':'' t))) (match_g False re_clock pt))"

subsection \<open>Month and day\<close>

text \<open>
  The month loop assigns the captured number before it tests its range, so a number
  out of range stays in the variable when no later pattern matches.
\<close>

fun month_loop :: "string \<Rightarrow> (re \<times> bool) list \<Rightarrow> jsnum \<Rightarrow> jsnum" where
  "month_loop pt [] v = v"
| "month_loop pt ((p, special) # ps) v =
     (case re_match True p pt of
        None \<Rightarrow> month_loop pt ps v
      | Some m \<Rightarrow>
          if special then Num 7
          else if in_range 1 12 (Number_u (at m 1)) then Number_u (at m 1)
          else month_loop pt ps (Number_u (at m 1)))"

fun day_loop :: "string \<Rightarrow> re list \<Rightarrow> jsnum \<Rightarrow> jsnum" where
  "day_loop pt [] v = v"
| "day_loop pt (p # ps) v =
     (case re_match True p pt of
        None \<Rightarrow> day_loop pt ps v
      | Some m \<Rightarrow>
          if in_range 1 31 (Number_u (at m 1)) then Number_u (at m 1)
          else day_loop pt ps (Number_u (at m 1)))"

text \<open>First pass of the date recovery: the tokens \<^verbatim>\<open>Nm\<close> and \<^verbatim>\<open>Nd\<close>.\<close>

definition date_token :: "reading \<Rightarrow> string \<Rightarrow> reading" where
  "date_token st tok =
     (let number = replace1 True (Chr (In [Lit CHR ''m'', Lit CHR ''d''])) (\<lambda>m. []) tok;
          type = toLowerCase (slice_last tok);
          v = Number_js number
      in if type = ''m'' \<and> in_range 1 12 v \<and> falsy (month st) then st\<lparr>month := v\<rparr>
         else if type = ''d'' \<and> in_range 1 31 v \<and> falsy (day st) then st\<lparr>day := v\<rparr>
         else st)"

definition date_pass1 :: "string \<Rightarrow> reading \<Rightarrow> reading" where
  "date_pass1 pt st =
     foldl date_token st
       (match_g True (seqs [WordB, Grp (digits 1 2), Chr (In [Lit CHR ''m'', Lit CHR ''d'']), WordB]) pt)"

text \<open>
  Second pass. The patterns carry the \<^verbatim>\<open>g\<close> flag, so \<^verbatim>\<open>match[1]\<close> and
  \<^verbatim>\<open>match[2]\<close> are the second and the third whole match, not captures.
\<close>

definition combinedDatePatterns :: "re list" where
  "combinedDatePatterns =
     [seqs [WordB, Grp (digits 1 2), Str ''m'', ws0, Grp (digits 1 2), Str ''d'', WordB],
      seqs [WordB, Grp (digits 1 2), Str ''m'', Grp (digits 1 2), Str ''d'', WordB],
      seqs [WordB, Grp (digits 1 2), ws0, Str ''/'', ws0, Grp (digits 1 2), WordB],
      seqs [WordB, Grp (digits 1 2), Str ''-'', Grp (digits 1 2), WordB],
      seqs [WordB, Grp (digits 1 2), ws1, Grp (digits 1 2), WordB]]"

definition set_if_unset :: "jsnum \<Rightarrow> jsnum \<Rightarrow> reading \<Rightarrow> reading" where
  "set_if_unset m d st =
     (let st1 = (if falsy (month st) then st\<lparr>month := m\<rparr> else st)
      in if falsy (day st1) then st1\<lparr>day := d\<rparr> else st1)"

fun date_pass2 :: "string \<Rightarrow> re list \<Rightarrow> reading \<Rightarrow> reading" where
  "date_pass2 pt [] st = st"
| "date_pass2 pt (p # ps) st =
     (case match_g True p pt of
        [] \<Rightarrow> date_pass2 pt ps st
      | w # ws \<Rightarrow>
          (let first = Number_u (at (w # ws) 1); second = Number_u (at (w # ws) 2)
           in if in_range 1 12 first \<and> in_range 1 31 second then set_if_unset first second st
              else if in_range 1 12 second \<and> in_range 1 31 first then set_if_unset second first st
              else date_pass2 pt ps st))"

text \<open>
  Third and sixth pass: two numbers from 1 to 31 that are no part of a clock token (nor,
  in the sixth pass, a blood-pressure value), months first.
\<close>

definition date_cmp :: "jsnum \<Rightarrow> jsnum \<Rightarrow> int" where
  "date_cmp a b =
     (if in_range 1 12 a \<and> \<not> in_range 1 12 b then - 1
      else if \<not> in_range 1 12 a \<and> in_range 1 12 b then 1
      else sub_sign a b)"

definition date_from_sorted :: "jsnum list \<Rightarrow> reading \<Rightarrow> reading" where
  "date_from_sorted ns st =
     (if 2 \<le> length ns
      then (let sorted = js_sort date_cmp ns;
                st1 = (if falsy (month st) \<and> in_range 1 12 (idx sorted 0)
                       then st\<lparr>month := idx sorted 0\<rparr> else st)
            in if falsy (day st1) \<and> in_range 1 31 (idx sorted 1)
               then st1\<lparr>day := idx sorted 1\<rparr> else st1)
      else st)"

definition date_pass3 :: "string \<Rightarrow> reading \<Rightarrow> reading" where
  "date_pass3 pt st =
     (let potentialDates = filter (in_range 1 31) (all_numbers re_num12 pt);
          timeValues = time_values pt;
          nonTimeNumbers = filter (\<lambda>n. \<not> arr_includes timeValues n) potentialDates
      in date_from_sorted nonTimeNumbers st)"

definition dateLikePatterns :: "re list" where
  "dateLikePatterns =
     [seqs [WordB, Grp (digits 1 2), Chr (In [Lit CHR ''/'', Lit CHR ''-'']), Grp (digits 1 2), WordB],
      seqs [WordB, Grp (digits 1 2), ws1, Grp (digits 1 2), WordB]]"

fun date_pass4 :: "string \<Rightarrow> re list \<Rightarrow> reading \<Rightarrow> reading" where
  "date_pass4 pt [] st = st"
| "date_pass4 pt (p # ps) st =
     (case match_g True p pt of
        [] \<Rightarrow> date_pass4 pt ps st
      | w # ws \<Rightarrow>
          (let first = Number_u (at (w # ws) 1); second = Number_u (at (w # ws) 2)
           in if in_range 1 12 first \<and> in_range 1 31 second then set_if_unset first second st
              else date_pass4 pt ps st))"

text \<open>Fifth pass, run while the month is unset: tables of misread tokens.\<close>

definition monthMisreads :: "(string \<times> jsnum) list" where
  "monthMisreads = [(''tm'', Num 7), (''t1'', Num 7), (''t2'', Num 7)]"

fun misread_loop :: "nat \<Rightarrow> nat \<Rightarrow> string \<Rightarrow> (string \<times> jsnum) list \<Rightarrow> jsnum \<Rightarrow> jsnum" where
  "misread_loop lo hi pt [] v = v"
| "misread_loop lo hi pt ((misread, value) # es) v =
     (if str_includes pt misread \<and> in_range lo hi value then value
      else misread_loop lo hi pt es v)"

definition month_4d :: "string \<Rightarrow> reading \<Rightarrow> reading" where
  "month_4d pt st =
     (if falsy (month st) \<and> str_includes pt ''4d''
      then (case filter (in_range 1 12) (all_numbers re_num12 pt) of
              [] \<Rightarrow> st\<lparr>month := Num 7\<rparr>
            | n # ns \<Rightarrow> st\<lparr>month := n\<rparr>)
      else st)"

definition combinedPatterns :: "re list" where
  "combinedPatterns =
     [seqs [Grp (digits 1 2), Str ''m'', Grp (digits 1 2), Str ''d''],
      seqs [Grp (digits 1 2), Str ''m'', ws0, Grp (digits 1 2), Str ''d''],
      seqs [Grp (digits 1 2), ws0, Str ''m'', ws0, Grp (digits 1 2), ws0, Str ''d'']]"

fun combined_loop :: "string \<Rightarrow> re list \<Rightarrow> reading \<Rightarrow> reading" where
  "combined_loop pt [] st = st"
| "combined_loop pt (p # ps) st =
     (case re_match True p pt of
        None \<Rightarrow> combined_loop pt ps st
      | Some m \<Rightarrow>
          (let monthValue = Number_u (at m 1);
               dayValue = Number_u (at m 2);
               st1 = (if in_range 1 12 monthValue then st\<lparr>month := monthValue\<rparr> else st);
               st2 = (if in_range 1 31 dayValue then st1\<lparr>day := dayValue\<rparr> else st1)
           in if truthy (month st2) \<and> truthy (day st2) then st2 else combined_loop pt ps st2))"

definition monthDayPattern :: re where
  "monthDayPattern = seqs [WordB, Grp (digits 1 2), ws0, Str ''m'', ws0, Grp (digits 1 2), ws0, Str ''d'', WordB]"

definition month_day :: "string \<Rightarrow> reading \<Rightarrow> reading" where
  "month_day pt st =
     (if falsy (month st) \<or> falsy (day st)
      then (case re_match True monthDayPattern pt of
              None \<Rightarrow> st
            | Some m \<Rightarrow>
                (let monthValue = Number_u (at m 1);
                     dayValue = Number_u (at m 2);
                     st1 = (if falsy (month st) \<and> in_range 1 12 monthValue
                            then st\<lparr>month := monthValue\<rparr> else st)
                 in if falsy (day st1) \<and> in_range 1 31 dayValue
                    then st1\<lparr>day := dayValue\<rparr> else st1))
      else st)"

definition ocrDateCorrections :: "(string \<times> jsnum) list" where
  "ocrDateCorrections =
     [(''cm'', Num 7), (''c1'', Num 7), (''c9'', Num 7), (''mid'', Num 7),
      (''1d'', Num 1), (''9d'', Num 9), (''13d'', Num 13)]"

definition date_correction :: "string \<Rightarrow> reading \<Rightarrow> string \<times> jsnum \<Rightarrow> reading" where
  "date_correction pt st e =
     (case e of (misread, value) \<Rightarrow>
        if str_includes pt misread
        then (if (starts_with misread ''c'' \<or> misread = ''mid'') \<and> falsy (month st)
              then st\<lparr>month := value\<rparr>
              else if ends_with1 misread CHR ''d'' \<and> falsy (day st) then st\<lparr>day := value\<rparr>
              else st)
        else st)"

definition date_corrections :: "string \<Rightarrow> reading \<Rightarrow> reading" where
  "date_corrections pt st =
     (if falsy (month st) \<or> falsy (day st) then foldl (date_correction pt) st ocrDateCorrections
      else st)"

definition date_pass5 :: "string \<Rightarrow> reading \<Rightarrow> reading" where
  "date_pass5 pt st =
     (if falsy (month st)
      then (let st1 = st\<lparr>month := misread_loop 1 12 pt monthMisreads (month st)\<rparr>;
                st2 = month_4d pt st1;
                st3 = (if falsy (month st2) \<and> falsy (day st2) then combined_loop pt combinedPatterns st2
                       else st2);
                st4 = month_day pt st3
            in date_corrections pt st4)
      else st)"

definition date_pass6 :: "string \<Rightarrow> reading \<Rightarrow> reading" where
  "date_pass6 pt st =
     (let validNumbers = filter (in_range 1 31) (all_numbers re_num12 pt);
          timeValues = time_values pt;
          bpNumbers = filter (\<lambda>n. gt_c n 0) [sys st, dia st, pulse st];
          availableNumbers =
            filter (\<lambda>n. \<not> arr_includes timeValues n \<and> \<not> arr_includes bpNumbers n) validNumbers
      in date_from_sorted availableNumbers st)"

definition date_unset :: "reading \<Rightarrow> bool" where
  "date_unset st = (falsy (day st) \<or> falsy (month st))"

definition date_recovery :: "string \<Rightarrow> reading \<Rightarrow> reading" where
  "date_recovery pt st =
     (if date_unset st
      then (let st1 = date_pass1 pt st;
                st2 = (if date_unset st1 then date_pass2 pt combinedDatePatterns st1 else st1);
                st3 = (if date_unset st2 then date_pass3 pt st2 else st2);
                st4 = (if date_unset st3 then date_pass4 pt dateLikePatterns st3 else st3);
                st5 = date_pass5 pt st4
            in if date_unset st5 then date_pass6 pt st5 else st5)
      else st)"

definition extract_date :: "string \<Rightarrow> reading \<Rightarrow> reading" where
  "extract_date pt st =
     date_recovery pt
       (st\<lparr>month := month_loop pt patterns_month (month st),
           day := day_loop pt patterns_day (day st)\<rparr>)"

subsection \<open>Time\<close>

definition format_time :: "jsnum \<Rightarrow> jsnum \<Rightarrow> string" where
  "format_time hour minute = padStart2 (toString hour) @ '':'' @ padStart2 (toString minute)"

text \<open>
  The first time pattern that matches decides; a match array of four entries (three
  captures) sets the time and the period, one of three entries the time only. Neither
  branch tests the range of the hour or the minute.
\<close>

definition time_from_match :: "string list \<Rightarrow> reading \<Rightarrow> reading" where
  "time_from_match m st =
     (if 4 \<le> length m
      then st\<lparr>time := format_time (Number_u (at m 1)) (Number_u (at m 2)),
              period := (case at m 3 of None \<Rightarrow> [] | Some a \<Rightarrow> toUpperCase (toLowerCase a))\<rparr>
      else if 3 \<le> length m
      then st\<lparr>time := format_time (Number_u (at m 1)) (Number_u (at m 2))\<rparr>
      else st)"

fun time_loop :: "string \<Rightarrow> re list \<Rightarrow> reading \<Rightarrow> reading" where
  "time_loop pt [] st = st"
| "time_loop pt (p # ps) st =
     (case re_match True p pt of
        None \<Rightarrow> time_loop pt ps st
      | Some m \<Rightarrow> time_from_match m st)"

text \<open>
  The fallback patterns carry the \<^verbatim>\<open>g\<close> flag: the hour and the minute are read from
  the second and the third whole match.
\<close>

definition timeLikePatterns :: "re list" where
  "timeLikePatterns =
     [seqs [WordB, Grp (digits 1 2), Str '':'', Grp (digits 2 2), WordB],
      seqs [WordB, Grp (digits 1 2), Str ''.'', Grp (digits 2 2), WordB],
      seqs [WordB, Grp (digits 1 2), ws1, Grp (digits 2 2), WordB],
      seqs [WordB, Grp (digits 1 2), Str ''h'', Grp (digits 2 2), Str ''m'', WordB]]"

definition valid_time :: "jsnum \<Rightarrow> jsnum \<Rightarrow> bool" where
  "valid_time hour minute = (in_range 0 23 hour \<and> in_range 0 59 minute)"

fun time_like_loop :: "string \<Rightarrow> re list \<Rightarrow> reading \<Rightarrow> reading" where
  "time_like_loop pt [] st = st"
| "time_like_loop pt (p # ps) st =
     (case match_g True p pt of
        [] \<Rightarrow> time_like_loop pt ps st
      | w # ws \<Rightarrow>
          if valid_time (Number_u (at (w # ws) 1)) (Number_u (at (w # ws) 2))
          then st\<lparr>time := format_time (Number_u (at (w # ws) 1)) (Number_u (at (w # ws) 2))\<rparr>
          else time_like_loop pt ps st)"

fun time_pairs :: "jsnum list \<Rightarrow> reading \<Rightarrow> reading" where
  "time_pairs (hour # minute # rest) st =
     (if valid_time hour minute then st\<lparr>time := format_time hour minute\<rparr>
      else time_pairs (minute # rest) st)"
| "time_pairs ns st = st"

definition time_numbers :: "string \<Rightarrow> reading \<Rightarrow> reading" where
  "time_numbers pt st =
     (let timeCandidates = filter (in_range 0 23) (all_numbers re_num12 pt)
      in if 2 \<le> length timeCandidates then time_pairs timeCandidates st else st)"

definition extract_time :: "string \<Rightarrow> reading \<Rightarrow> reading" where
  "extract_time pt st =
     (let st1 = time_loop pt patterns_time st;
          st2 = (if time st1 = [] then time_like_loop pt timeLikePatterns st1 else st1)
      in if time st2 = [] then time_numbers pt st2 else st2)"

subsection \<open>Systolic and diastolic\<close>

text \<open>
  The cascades of the pressure fields and of the pulse assign a captured number only
  when it is in the acceptance range, and stop there.
\<close>

fun first_in_range :: "nat \<Rightarrow> nat \<Rightarrow> string \<Rightarrow> re list \<Rightarrow> jsnum \<Rightarrow> jsnum" where
  "first_in_range lo hi pt [] v = v"
| "first_in_range lo hi pt (p # ps) v =
     (case re_match True p pt of
        None \<Rightarrow> first_in_range lo hi pt ps v
      | Some m \<Rightarrow>
          if in_range lo hi (Number_u (at m 1)) then Number_u (at m 1)
          else first_in_range lo hi pt ps v)"

definition label_patterns :: "string \<Rightarrow> re list" where
  "label_patterns label =
     [seqs [Str label, Grp (digits 2 3), WordB],
      seqs [Str label, ws0, Grp (digits 2 3), WordB],
      seqs [Str label, Str '':'', Grp (digits 2 3), WordB],
      seqs [Str label, ws0, Str '':'', ws0, Grp (digits 2 3), WordB]]"

text \<open>
  The numbers of two and three digits (or of exactly two) in the ten characters before
  and after the first occurrence of a label of three letters.
\<close>

definition nearby_numbers :: "re \<Rightarrow> string \<Rightarrow> string \<Rightarrow> int \<Rightarrow> int \<Rightarrow> jsnum list" where
  "nearby_numbers r pt label len width =
     (let i = indexOf pt label;
          before = substring pt (max 0 (i - width)) i;
          after = substring pt (i + len) (i + len + width)
      in map (\<lambda>m. Number_u (at m 1)) (matchAll False r before @ matchAll False r after))"

definition low_sys :: "reading \<Rightarrow> bool" where
  "low_sys st = (falsy (sys st) \<or> lt_c (sys st) 100)"

definition sys_near_label :: "string \<Rightarrow> reading \<Rightarrow> reading" where
  "sys_near_label pt st =
     (if str_includes pt ''sys''
      then (let st1 = st\<lparr>sys := first_in_range 100 250 pt (label_patterns ''sys'') (sys st)\<rparr>
            in if low_sys st1
               then (case filter (in_range 100 250) (nearby_numbers re_num23 pt ''sys'' 3 10) of
                       [] \<Rightarrow> st1
                     | n # ns \<Rightarrow> st1\<lparr>sys := n\<rparr>)
               else st1)
      else st)"

definition sys_global :: "string \<Rightarrow> reading \<Rightarrow> reading" where
  "sys_global pt st =
     (case filter (in_range 100 250) (all_numbers re_num23 pt) of
        [] \<Rightarrow> st
      | c # cs \<Rightarrow>
          (case filter (in_range 100 250) (all_numbers re_num3 pt) of
             [] \<Rightarrow> st\<lparr>sys := c\<rparr>
           | l # ls \<Rightarrow> st\<lparr>sys := l\<rparr>))"

definition sys_correction :: "string \<Rightarrow> reading \<Rightarrow> reading" where
  "sys_correction pt st = (if low_sys st then sys_global pt (sys_near_label pt st) else st)"

definition extract_sys :: "string \<Rightarrow> reading \<Rightarrow> reading" where
  "extract_sys pt st =
     sys_correction pt (st\<lparr>sys := first_in_range 70 250 pt patterns_systolic (sys st)\<rparr>)"

definition low_dia :: "reading \<Rightarrow> bool" where
  "low_dia st = (falsy (dia st) \<or> lt_c (dia st) 40)"

definition percentagePattern :: re where
  "percentagePattern = seqs [WordB, Grp (digits 2 3), ws0, Str ''%'', WordB]"

definition dia_percentage :: "string \<Rightarrow> reading \<Rightarrow> reading" where
  "dia_percentage pt st =
     (if low_dia st
      then (case re_match True percentagePattern pt of
              None \<Rightarrow> st
            | Some m \<Rightarrow> if in_range 40 150 (Number_u (at m 1)) then st\<lparr>dia := Number_u (at m 1)\<rparr> else st)
      else st)"

definition dia_correction :: "string \<Rightarrow> reading \<Rightarrow> reading" where
  "dia_correction pt st =
     (if low_dia st \<and> str_includes pt ''dia''
      then (let st1 = st\<lparr>dia := first_in_range 40 150 pt (label_patterns ''dia'') (dia st)\<rparr>
            in if low_dia st1
               then dia_percentage pt
                      (case filter (in_range 40 150) (nearby_numbers re_num23 pt ''dia'' 3 10) of
                         [] \<Rightarrow> st1
                       | n # ns \<Rightarrow> st1\<lparr>dia := n\<rparr>)
               else st1)
      else st)"

definition extract_dia :: "string \<Rightarrow> reading \<Rightarrow> reading" where
  "extract_dia pt st =
     dia_correction pt (st\<lparr>dia := first_in_range 40 150 pt patterns_diastolic (dia st)\<rparr>)"

subsection \<open>Pulse\<close>

definition ocrMisreads :: "(string \<times> jsnum) list" where
  "ocrMisreads = [(''coc'', Num 71), (''c0c'', Num 70), (''c1c'', Num 71)]"

definition lcd_layout :: "string \<Rightarrow> bool" where
  "lcd_layout pt = (str_includes pt ''sys'' \<and> str_includes pt ''dia'' \<and> str_includes pt ''pulse'')"

text \<open>The numbers in a range that are no hour or minute of a clock token.\<close>

definition standalone_numbers :: "nat \<Rightarrow> nat \<Rightarrow> string \<Rightarrow> jsnum list" where
  "standalone_numbers lo hi pt =
     (let numbers = filter (in_range lo hi) (all_numbers re_num23 pt);
          timeNumbers = time_values pt
      in filter (\<lambda>n. \<not> arr_includes timeNumbers n) numbers)"

text \<open>
  Candidates for the pulse: the numbers given, without those equal to the systolic or
  the diastolic value.
\<close>

definition exclude_bp :: "reading \<Rightarrow> jsnum list \<Rightarrow> jsnum list" where
  "exclude_bp st ns =
     (let bpNumbers = filter (\<lambda>n. gt_c n 0) [sys st, dia st]
      in filter (\<lambda>n. \<not> arr_includes bpNumbers n) ns)"

text \<open>
  The search in the window around \<^verbatim>\<open>coc\<close>. When every number of the window is a
  blood-pressure value, the first of them is taken all the same.
\<close>

definition coc_window :: "string \<Rightarrow> reading \<Rightarrow> reading" where
  "coc_window pt st =
     (let potentialPulse = filter (in_range 40 200) (nearby_numbers re_num2 pt ''coc'' 3 10)
      in (case exclude_bp st potentialPulse of
            c # cs \<Rightarrow> st\<lparr>pulse := c\<rparr>
          | [] \<Rightarrow> (case potentialPulse of [] \<Rightarrow> st | q # qs \<Rightarrow> st\<lparr>pulse := q\<rparr>)))"

definition pulse_third :: "string \<Rightarrow> reading \<Rightarrow> reading" where
  "pulse_third pt st =
     (let standaloneNumbers = standalone_numbers 40 200 pt
      in if 3 \<le> length standaloneNumbers
         then (let thirdNumber = idx standaloneNumbers 2
               in if strict_neq thirdNumber (sys st) \<and> strict_neq thirdNumber (dia st)
                     \<and> in_range 40 200 thirdNumber
                  then st\<lparr>pulse := thirdNumber\<rparr> else st)
         else st)"

definition pulse_label_area :: "string \<Rightarrow> reading \<Rightarrow> reading" where
  "pulse_label_area pt st =
     (if falsy (pulse st) \<and> indexOf pt ''pulse'' \<noteq> - 1
      then (case exclude_bp st (filter (in_range 40 200) (nearby_numbers re_num2 pt ''pulse'' 5 20)) of
              [] \<Rightarrow> st
            | c # cs \<Rightarrow> st\<lparr>pulse := c\<rparr>)
      else st)"

definition coc_positional :: "string \<Rightarrow> reading \<Rightarrow> reading" where
  "coc_positional pt st =
     (if falsy (pulse st) \<and> lcd_layout pt then pulse_label_area pt (pulse_third pt st) else st)"

definition pulse_coc :: "string \<Rightarrow> reading \<Rightarrow> reading" where
  "pulse_coc pt st =
     (if falsy (pulse st) \<and> str_includes pt ''coc''
      then (let st1 = st\<lparr>pulse := misread_loop 40 200 pt ocrMisreads (pulse st)\<rparr>
            in if falsy (pulse st1) then coc_positional pt (coc_window pt st1) else st1)
      else st)"

definition extract_pulse :: "string \<Rightarrow> reading \<Rightarrow> reading" where
  "extract_pulse pt st =
     pulse_coc pt (st\<lparr>pulse := first_in_range 40 200 pt patterns_pulse (pulse st)\<rparr>)"

subsection \<open>Period\<close>

fun period_loop :: "string \<Rightarrow> re list \<Rightarrow> reading \<Rightarrow> reading" where
  "period_loop pt [] st = st"
| "period_loop pt (p # ps) st =
     (case re_match True p pt of
        None \<Rightarrow> period_loop pt ps st
      | Some m \<Rightarrow> st\<lparr>period := (case at m 1 of None \<Rightarrow> [] | Some a \<Rightarrow> toUpperCase a)\<rparr>)"

definition extract_period :: "string \<Rightarrow> reading \<Rightarrow> reading" where
  "extract_period pt st = period_loop pt patterns_period st"

section \<open>The layout override and the fallbacks\<close>

text \<open>
  With all three labels in the text, the first two standalone numbers from 40 to 250
  replace the systolic and the diastolic value, and the third, if there is one, the
  pulse.
\<close>

definition lcd_override :: "string \<Rightarrow> reading \<Rightarrow> reading" where
  "lcd_override pt st =
     (let standaloneNumbers = standalone_numbers 40 250 pt
      in if 2 \<le> length standaloneNumbers
         then (let st1 = st\<lparr>sys := idx standaloneNumbers 0, dia := idx standaloneNumbers 1\<rparr>
               in if 3 \<le> length standaloneNumbers then st1\<lparr>pulse := idx standaloneNumbers 2\<rparr> else st1)
         else st)"

text \<open>
  Without them: the largest number from 70 to 250 for an unset systolic value, and the
  first other number, in descending order, for an unset diastolic value.
\<close>

definition bp_fallback :: "string \<Rightarrow> reading \<Rightarrow> reading" where
  "bp_fallback pt st =
     (if falsy (sys st) \<or> falsy (dia st)
      then (let bpNumbers = filter (in_range 70 250) (all_numbers re_num23 pt)
            in if 2 \<le> length bpNumbers
               then (let sorted = js_sort (\<lambda>a b. sub_sign b a) bpNumbers;
                         st1 = (if falsy (sys st) then st\<lparr>sys := idx sorted 0\<rparr> else st)
                     in if falsy (dia st1)
                        then (case find (\<lambda>n. strict_neq n (sys st1)) sorted of
                                None \<Rightarrow> st1
                              | Some secondLargest \<Rightarrow>
                                  if truthy secondLargest then st1\<lparr>dia := secondLargest\<rparr> else st1)
                        else st1)
               else st)
      else st)"

text \<open>The smallest number from 40 to 200 that is neither, for an unset pulse.\<close>

definition pulse_fallback :: "string \<Rightarrow> reading \<Rightarrow> reading" where
  "pulse_fallback pt st =
     (if falsy (pulse st)
      then (case js_sort sub_sign (exclude_bp st (filter (in_range 40 200) (all_numbers re_num23 pt))) of
              [] \<Rightarrow> st
            | c # cs \<Rightarrow> st\<lparr>pulse := c\<rparr>)
      else st)"

definition positional :: "string \<Rightarrow> reading \<Rightarrow> reading" where
  "positional pt st =
     (if lcd_layout pt then lcd_override pt st else pulse_fallback pt (bp_fallback pt st))"

section \<open>The validator and the entry point\<close>

definition keep :: "nat \<Rightarrow> nat \<Rightarrow> jsnum \<Rightarrow> jsnum" where
  "keep lo hi x = (if in_range lo hi x then x else Num 0)"

definition validate :: "reading \<Rightarrow> reading" where
  "validate st =
     \<lparr>day = keep 1 31 (day st), month = keep 1 12 (month st),
      time = time st, period = period st,
      sys = keep 70 250 (sys st), dia = keep 40 150 (dia st), pulse = keep 40 200 (pulse st)\<rparr>"

text \<open>The variables when the layout override or the fallbacks start.\<close>

definition candidates :: "string \<Rightarrow> reading" where
  "candidates pt =
     extract_period pt (extract_pulse pt (extract_dia pt (extract_sys pt
       (extract_time pt (extract_date pt initial)))))"

definition extractDataFromText :: "string \<Rightarrow> reading" where
  "extractDataFromText text =
     (let processedText = preprocessText text
      in validate (positional processedText (candidates processedText)))"

section \<open>Evaluation\<close>

text \<open>
  The matcher is run on concrete texts by rewriting. The functions below restate its
  branching by pattern matching, so that a rewrite step never copies a branch that is
  not taken; each is proved equal to the definition it stands for.
\<close>

definition pick :: "bool \<Rightarrow> 'a \<Rightarrow> 'a \<Rightarrow> 'a" where
  "pick b x y = (if b then x else y)"

definition str_k :: "bool \<Rightarrow> bool \<Rightarrow> string \<Rightarrow> char \<Rightarrow> string \<Rightarrow> mres list" where
  "str_k b ci as x xs =
     (if b then map (\<lambda>(cs, t, pv', xs'). (cs, x # t, pv', xs')) (str_match ci as (Some x) xs) else [])"

definition rep_k :: "bool \<Rightarrow> bool \<Rightarrow> cls \<Rightarrow> nat \<Rightarrow> nat option \<Rightarrow> char \<Rightarrow> string \<Rightarrow> mres list" where
  "rep_k b ci k lo hi x xs =
     (if b then map (\<lambda>(cs, t, pv', xs'). (cs, x # t, pv', xs'))
                 (rep_cls ci k (lo - 1) (map_option (\<lambda>h. h - 1) hi) (Some x) xs)
      else [])"

fun seq_k :: "bool \<Rightarrow> re \<Rightarrow> mres list \<Rightarrow> mres list" where
  "seq_k ci b [] = []"
| "seq_k ci b ((cs, t, pv', xs') # rs) =
     map (\<lambda>(cs2, t2, pv2, xs2). (cs @ cs2, t @ t2, pv2, xs2)) (rmatch ci b pv' xs') @ seq_k ci b rs"

fun match_k :: "mres list \<Rightarrow> string list option" where
  "match_k [] = None"
| "match_k ((cs, t, pv', xs') # rs) = Some (t # cs)"

fun search_k :: "string list option \<Rightarrow> bool \<Rightarrow> re \<Rightarrow> char \<Rightarrow> string \<Rightarrow> string list option" where
  "search_k (Some m) ci r x xs = Some m"
| "search_k None ci r x xs = search ci r (Some x) xs"

fun scan_m :: "string list option \<Rightarrow> bool \<Rightarrow> re \<Rightarrow> char \<Rightarrow> string \<Rightarrow> string list list" where
  "scan_m None ci r x xs = scan ci r 0 (Some x) xs"
| "scan_m (Some m) ci r x xs = m # scan ci r (length (whole m) - 1) (Some x) xs"

fun scan_s :: "bool \<Rightarrow> bool \<Rightarrow> re \<Rightarrow> nat \<Rightarrow> char option \<Rightarrow> char \<Rightarrow> string \<Rightarrow> string list list" where
  "scan_s True ci r skip pv x xs = scan ci r (skip - 1) (Some x) xs"
| "scan_s False ci r skip pv x xs = scan_m (match_at ci r pv (x # xs)) ci r x xs"

fun scan_e :: "string list option \<Rightarrow> string list list" where
  "scan_e None = []"
| "scan_e (Some m) = [m]"

fun subst_m :: "string list option \<Rightarrow> bool \<Rightarrow> re \<Rightarrow> (string list \<Rightarrow> string) \<Rightarrow> char \<Rightarrow> string \<Rightarrow> string" where
  "subst_m None ci r f x xs = x # subst ci r f 0 (Some x) xs"
| "subst_m (Some m) ci r f x xs =
     f m @ pick (whole m = []) (x # subst ci r f 0 (Some x) xs) (subst ci r f (length (whole m) - 1) (Some x) xs)"

fun subst_s :: "bool \<Rightarrow> bool \<Rightarrow> re \<Rightarrow> (string list \<Rightarrow> string) \<Rightarrow> nat \<Rightarrow> char option \<Rightarrow> char \<Rightarrow> string \<Rightarrow> string" where
  "subst_s True ci r f skip pv x xs = subst ci r f (skip - 1) (Some x) xs"
| "subst_s False ci r f skip pv x xs = subst_m (match_at ci r pv (x # xs)) ci r f x xs"

fun subst_e :: "string list option \<Rightarrow> (string list \<Rightarrow> string) \<Rightarrow> string" where
  "subst_e None f = []"
| "subst_e (Some m) f = f m"

fun index_k :: "bool \<Rightarrow> string \<Rightarrow> string \<Rightarrow> int \<Rightarrow> int" where
  "index_k True xs sub i = i"
| "index_k False xs sub i = index_from xs sub (i + 1)"

section \<open>Rules for running the model\<close>

subsection \<open>Characters by their bits\<close>

lemma is_digit_Char:
  "is_digit (Char b0 b1 b2 b3 b4 b5 b6 b7) =
     (\<not> b7 \<and> \<not> b6 \<and> b5 \<and> b4 \<and> (\<not> b3 \<or> (\<not> b2 \<and> \<not> b1)))"
  by (cases b0; cases b1; cases b2; cases b3; cases b4; cases b5; cases b6; cases b7;
      simp add: is_digit_def code_def)

lemma is_word_Char:
  "is_word (Char b0 b1 b2 b3 b4 b5 b6 b7) =
     (\<not> b7 \<and> ((\<not> b6 \<and> b5 \<and> b4 \<and> (\<not> b3 \<or> (\<not> b2 \<and> \<not> b1)))
       \<or> (b6 \<and> ((b4 \<and> (\<not> b3 \<or> (\<not> b2 \<and> \<not> (b1 \<and> b0)) \<or> (\<not> b5 \<and> b3 \<and> b2 \<and> b1 \<and> b0)))
                \<or> (\<not> b4 \<and> (b3 \<or> b2 \<or> b1 \<or> b0))))))"
  by (cases b0; cases b1; cases b2; cases b3; cases b4; cases b5; cases b6; cases b7;
      simp add: is_word_def code_def)

lemma is_space_Char:
  "is_space (Char b0 b1 b2 b3 b4 b5 b6 b7) =
     (\<not> b6 \<and> \<not> b4 \<and> ((b5 \<and> \<not> b3 \<and> \<not> b2 \<and> \<not> b1 \<and> \<not> b0)
        \<or> (\<not> b5 \<and> \<not> b7 \<and> b3 \<and> ((b2 \<and> \<not> b1) \<or> (\<not> b2 \<and> (b1 \<or> b0))))))"
  by (cases b0; cases b1; cases b2; cases b3; cases b4; cases b5; cases b6; cases b7;
      simp add: is_space_def code_def)

lemma lower_char_Char:
  "lower_char (Char b0 b1 b2 b3 b4 b5 b6 b7) =
     Char b0 b1 b2 b3 b4
      (b5 \<or> (b6 \<and> ((b7 \<and> \<not> (b4 \<and> b3 \<and> b2 \<and> b1 \<and> b0) \<and> \<not> (b4 \<and> \<not> b3 \<and> b2 \<and> b1 \<and> b0))
                \<or> (\<not> b7 \<and> ((b4 \<and> (\<not> b3 \<or> (\<not> b2 \<and> \<not> (b1 \<and> b0)))) \<or> (\<not> b4 \<and> (b3 \<or> b2 \<or> b1 \<or> b0)))))))
      b6 b7"
  by (cases b0; cases b1; cases b2; cases b3; cases b4; cases b5; cases b6; cases b7;
      simp add: lower_char_def code_def char_of_def bit_iff_odd)

lemma upper_char_Char:
  "upper_char (Char b0 b1 b2 b3 b4 b5 b6 b7) =
     Char b0 b1 b2 b3 b4
      (b5 \<and> \<not> (b6 \<and> ((b7 \<and> \<not> (b4 \<and> b3 \<and> b2 \<and> b1 \<and> b0) \<and> \<not> (b4 \<and> \<not> b3 \<and> b2 \<and> b1 \<and> b0))
                \<or> (\<not> b7 \<and> ((b4 \<and> (\<not> b3 \<or> (\<not> b2 \<and> \<not> (b1 \<and> b0)))) \<or> (\<not> b4 \<and> (b3 \<or> b2 \<or> b1 \<or> b0)))))))
      b6 b7"
  by (cases b0; cases b1; cases b2; cases b3; cases b4; cases b5; cases b6; cases b7;
      simp add: upper_char_def code_def char_of_def bit_iff_odd)

lemma digit_val_tab:
  "digit_val CHR ''0'' = 0" "digit_val CHR ''1'' = 1" "digit_val CHR ''2'' = 2"
  "digit_val CHR ''3'' = 3" "digit_val CHR ''4'' = 4" "digit_val CHR ''5'' = 5"
  "digit_val CHR ''6'' = 6" "digit_val CHR ''7'' = 7" "digit_val CHR ''8'' = 8"
  "digit_val CHR ''9'' = 9"
  by (simp_all add: digit_val_def code_def)

lemma digit_char_tab:
  "digit_char 0 = CHR ''0''" "digit_char 1 = CHR ''1''" "digit_char 2 = CHR ''2''"
  "digit_char 3 = CHR ''3''" "digit_char 4 = CHR ''4''" "digit_char 5 = CHR ''5''"
  "digit_char 6 = CHR ''6''" "digit_char 7 = CHR ''7''" "digit_char 8 = CHR ''8''"
  "digit_char 9 = CHR ''9''"
  by (simp_all add: digit_char_def char_of_def bit_iff_odd)

subsection \<open>The matcher by pattern matching\<close>

lemma pick_simps: "pick True x y = x" "pick False x y = y"
  by (simp_all add: pick_def)

lemma str_k_simps:
  "str_k True ci as x xs =
     map (\<lambda>(cs, t, pv', xs'). (cs, x # t, pv', xs')) (str_match ci as (Some x) xs)"
  "str_k False ci as x xs = []"
  by (simp_all add: str_k_def)

lemma str_match_ev:
  "str_match ci [] pv xs = [([], [], pv, xs)]"
  "str_match ci (a # as) pv [] = []"
  "str_match ci (a # as) pv (x # xs) = str_k (atom_has ci (Lit a) x) ci as x xs"
  by (simp_all add: str_k_def)

lemma rep_k_simps:
  "rep_k True ci k lo hi x xs =
     map (\<lambda>(cs, t, pv', xs'). (cs, x # t, pv', xs'))
       (rep_cls ci k (lo - 1) (map_option (\<lambda>h. h - 1) hi) (Some x) xs)"
  "rep_k False ci k lo hi x xs = []"
  by (simp_all add: rep_k_def)

lemma rep_cls_ev:
  "rep_cls ci k lo hi pv [] = pick (lo = 0) [([], [], pv, [])] []"
  "rep_cls ci k lo hi pv (x # xs) =
     rep_k (hi \<noteq> Some 0 \<and> cls_has ci k x) ci k lo hi x xs @ pick (lo = 0) [([], [], pv, x # xs)] []"
  by (simp_all add: pick_def rep_k_def)

lemma seq_k_eq:
  "seq_k ci b rs =
     concat (map (\<lambda>(cs, t, pv', xs').
                    map (\<lambda>(cs2, t2, pv2, xs2). (cs @ cs2, t @ t2, pv2, xs2)) (rmatch ci b pv' xs')) rs)"
  by (induction rs) auto

lemma rmatch_ev:
  "rmatch ci (Chr k) pv [] = []"
  "rmatch ci (Chr k) pv (x # xs) = pick (cls_has ci k x) [([], [x], Some x, xs)] []"
  "rmatch ci (Str s) pv xs = str_match ci s pv xs"
  "rmatch ci (Seq a b) pv xs = seq_k ci b (rmatch ci a pv xs)"
  "rmatch ci (Alt a b) pv xs = rmatch ci a pv xs @ rmatch ci b pv xs"
  "rmatch ci (Rep lo hi k) pv xs = rep_cls ci k lo hi pv xs"
  "rmatch ci (Grp a) pv xs = map (\<lambda>(cs, t, pv', xs'). (t # cs, t, pv', xs')) (rmatch ci a pv xs)"
  "rmatch ci WordB pv xs = pick (is_word_opt pv \<noteq> is_word_hd xs) [([], [], pv, xs)] []"
  by (simp_all add: pick_def seq_k_eq)

lemma word_ev:
  "is_word_opt None = False" "is_word_opt (Some c) = is_word c"
  "is_word_hd [] = False" "is_word_hd (x # xs) = is_word x"
  by (simp_all add: is_word_opt_def is_word_hd_def)

lemma atom_ev:
  "atom_has ci Digit c = is_digit c" "atom_has ci Space c = is_space c"
  "atom_has ci Word c = is_word c"
  "atom_has True (Lit a) c = (lower_char a = lower_char c)"
  "atom_has False (Lit a) c = (a = c)"
  by simp_all

lemma match_at_ev: "match_at ci r pv xs = match_k (rmatch ci r pv xs)"
  by (cases "rmatch ci r pv xs") (auto simp: match_at_def)

lemma search_ev:
  "search ci r pv [] = match_at ci r pv []"
  "search ci r pv (x # xs) = search_k (match_at ci r pv (x # xs)) ci r x xs"
  by (simp_all split: option.split)

lemma scan_ev:
  "scan ci r skip pv [] = pick (skip = 0) (scan_e (match_at ci r pv [])) []"
  "scan ci r skip pv (x # xs) = scan_s (0 < skip) ci r skip pv x xs"
  by (auto simp: pick_def split: option.split)

lemma subst_ev:
  "subst ci r f skip pv [] = pick (skip = 0) (subst_e (match_at ci r pv []) f) []"
  "subst ci r f skip pv (x # xs) = subst_s (0 < skip) ci r f skip pv x xs"
  by (auto simp: pick_def split: option.split)

lemma index_ev:
  "index_from [] sub i = pick (sub = []) i (- 1)"
  "index_from (x # xs) sub i = index_k (starts_with (x # xs) sub) xs sub i"
  by (auto simp: pick_def)

lemma length_Cons1: "length (x # xs) = 1 + length xs"
  by simp

lemma nat_one: "nat 1 = (1::nat)"
  by simp

lemma mem_ev: "(x \<in> set []) = False" "(x \<in> set (y # ys)) = (y = x \<or> x \<in> set ys)"
  by auto

subsection \<open>The rule sets\<close>

lemmas arith_eval =
  arith_simps rel_simps diff_nat_numeral nat_numeral nat_neg_numeral nat_0 nat_one
  nat_numeral_diff_1 diff_0_eq_0 diff_self_eq_0 diff_zero one_add_one numeral_plus_one
  one_plus_numeral mult_0 mult_0_right mult_1 mult_1_right list.size(3) length_Cons1
  simp_thms option.inject option.distinct order.refl diff_numeral_special
  of_nat_numeral of_nat_0 of_nat_1 max_def min_def
  numeral_div_numeral numeral_mod_numeral divmod_trivial divmod_steps divmod_cancel
  divmod_step_def fst_conv snd_conv div_0 mod_0 one_div_numeral one_mod_numeral
  euclidean_size_nat_less_eq_iff arith_special numeral_times_numeral

lemmas engine_eval =
  re_match_def search_ev search_k.simps match_at_ev match_k.simps seqs.simps alts.simps
  rmatch_ev seq_k.simps str_match_ev str_k_simps atom_ev cls_has.simps char.inject
  prod.case concat.simps list.map append.simps rep_cls_ev rep_k_simps pick_simps
  digits_def word_ev scan_ev scan_s.simps scan_m.simps scan_e.simps
  subst_ev subst_s.simps subst_m.simps subst_e.simps
  is_word_Char is_digit_Char is_space_Char lower_char_Char upper_char_Char
  ws1_def ws0_def lits_def list_ex_Nil_iff list_ex_Cons_iff option.map list.inject list.distinct
  replace_g_def matchAll_def match_g_def whole_def cap_def at.simps list.case option.case
  if_True if_False index_ev index_k.simps starts_with.simps indexOf_def str_includes_def
  toLowerCase_def toUpperCase_def

lemmas list_eval =
  filter.simps foldl.simps foldr.simps find.simps mem_ev rev.simps list_all_Nil_iff
  list_all_Cons_iff take_Cons_numeral drop_Cons_numeral take_0 drop_0 take.simps(1)
  drop.simps(1) pred_numeral_simps take_Cons' drop_Cons' o_apply id_apply

lemmas number_eval =
  digit_val_tab digit_char_tab nat_of_digits_def strip_zeros_def strip_zeros_rev.simps
  Number_js_def Number_u_def digits_of.simps toString.simps ge_c.simps le_c.simps lt_c.simps
  gt_c.simps in_range_def falsy.simps truthy_def strict_neq.simps arr_includes_def
  js_less.simps sub_sign_def insert_cmp.simps js_sort_def idx_def jsnum.inject jsnum.distinct
  split_on.simps slice_last.simps ends_with1.simps padStart2.simps substring_def
  replace1_def subst1.simps

lemmas model_eval =
  preprocessText_def re_noise_def initial_def patterns_month_def patterns_day_def am_pm_def
  patterns_time_def sep_opt_def patterns_systolic_def patterns_diastolic_def
  patterns_pulse_def patterns_period_def re_num12_def re_num23_def re_num2_def re_num3_def
  re_clock_def all_numbers_def time_values_def month_loop.simps day_loop.simps
  date_token_def date_pass1_def combinedDatePatterns_def set_if_unset_def date_pass2.simps
  date_cmp_def date_from_sorted_def date_pass3_def dateLikePatterns_def date_pass4.simps
  monthMisreads_def misread_loop.simps month_4d_def combinedPatterns_def combined_loop.simps
  monthDayPattern_def month_day_def ocrDateCorrections_def date_correction_def
  date_corrections_def date_pass5_def date_pass6_def date_unset_def date_recovery_def
  extract_date_def format_time_def time_from_match_def time_loop.simps timeLikePatterns_def
  valid_time_def time_like_loop.simps time_pairs.simps time_numbers_def extract_time_def
  first_in_range.simps label_patterns_def nearby_numbers_def low_sys_def sys_near_label_def
  sys_global_def sys_correction_def extract_sys_def low_dia_def percentagePattern_def
  dia_percentage_def dia_correction_def extract_dia_def ocrMisreads_def lcd_layout_def
  standalone_numbers_def exclude_bp_def coc_window_def pulse_third_def pulse_label_area_def
  coc_positional_def pulse_coc_def extract_pulse_def period_loop.simps extract_period_def
  lcd_override_def bp_fallback_def pulse_fallback_def positional_def keep_def validate_def
  candidates_def extractDataFromText_def Let_def reading.simps

lemmas run = model_eval number_eval list_eval engine_eval arith_eval

lemmas lazy = if_weak_cong option.case_cong_weak list.case_cong_weak let_weak_cong

section \<open>Runs of the program\<close>

text \<open>The program on some texts, computed by rewriting.\<close>

lemma run_date_example:
  "extractDataFromText ''7m 15d 12:30 pm sys 130 dia 85 pulse 70'' =
     \<lparr>day = Num 15, month = Num 7, time = ''12:30'', period = ''PM'',
      sys = Num 130, dia = Num 85, pulse = Num 70\<rparr>"
  by (simp only: run cong: lazy)

lemma run_empty:
  "extractDataFromText [] =
     \<lparr>day = Num 0, month = Num 0, time = [], period = [], sys = Num 0, dia = Num 0, pulse = Num 0\<rparr>"
  by (simp only: run cong: lazy)

lemma layout_labels:
  "lcd_layout (preprocessText ''sys 144 dia 72 pulse 76'')"
  by (simp only: run cong: lazy)

lemma layout_numbers:
  "match_g False re_num23 (preprocessText ''sys 144 dia 72 pulse 76'') = [''144'', ''72'', ''76'']"
  by (simp only: run cong: lazy)

lemma layout_no_clock:
  "time_values (preprocessText ''sys 144 dia 72 pulse 76'') = []"
  by (simp only: run cong: lazy)

lemma layout_cascade_pulse:
  "pulse (candidates (preprocessText ''sys 144 dia 72 pulse 76'')) = Num 72"
  by (simp only: run cong: lazy)

lemma no_labels: "\<not> lcd_layout (preprocessText ''120 80 65'')"
  by (simp only: run cong: lazy)

lemma fallback_state:
  "bp_fallback (preprocessText ''120 80 65'') (candidates (preprocessText ''120 80 65'')) =
     \<lparr>day = Num 0, month = Num 0, time = [], period = [], sys = Num 120, dia = Num 80, pulse = Num 0\<rparr>"
  by (simp only: run cong: lazy)

lemma fallback_pulse:
  "pulse_fallback (preprocessText ''120 80 65'')
     \<lparr>day = Num 0, month = Num 0, time = [], period = [], sys = Num 120, dia = Num 80, pulse = Num 0\<rparr> =
     \<lparr>day = Num 0, month = Num 0, time = [], period = [], sys = Num 120, dia = Num 80, pulse = Num 65\<rparr>"
  by (simp only: run cong: lazy)

lemma labelled_130:
  "first_in_range 70 250 (preprocessText ''sys 130 and then later 120'') patterns_systolic (Num 0) = Num 130"
  by (simp only: run cong: lazy)

lemma labelled_130_no_layout: "\<not> lcd_layout (preprocessText ''sys 130 and then later 120'')"
  by (simp only: run cong: lazy)

section \<open>The validator\<close>

lemma keep_cases: "keep lo hi x = Num 0 \<or> in_range lo hi (keep lo hi x)"
  by (simp add: keep_def)

lemma keep_not_NaN: "keep lo hi x \<noteq> NaN"
  by (cases x) (auto simp: keep_def in_range_def)

text \<open>
  C1. For every input string, the empty string and arbitrary garbage included,
  \<^verbatim>\<open>extractDataFromText\<close> returns a record with all seven fields. The model is a total
  function: every loop of the source is a recursion on a list or on the text, and no
  operation of the source can throw (every match array is read under a test that it is
  not \<^verbatim>\<open>null\<close>, or through \<^verbatim>\<open>?.\<close>). What is left to prove is that no field is
  \<^verbatim>\<open>undefined\<close> or \<^verbatim>\<open>NaN\<close>: the numeric fields of the record are numbers, whatever
  the variables held before the validator.
\<close>

theorem extract_total:
  "\<exists>d m t p s a b.
      extractDataFromText text = \<lparr>day = d, month = m, time = t, period = p, sys = s, dia = a, pulse = b\<rparr>
      \<and> d \<noteq> NaN \<and> m \<noteq> NaN \<and> s \<noteq> NaN \<and> a \<noteq> NaN \<and> b \<noteq> NaN"
  by (simp add: extractDataFromText_def Let_def validate_def keep_not_NaN)

theorem extract_total_witness:
  "(\<exists>d m t p s a b.
      extractDataFromText [] = \<lparr>day = d, month = m, time = t, period = p, sys = s, dia = a, pulse = b\<rparr>
      \<and> d \<noteq> NaN \<and> m \<noteq> NaN \<and> s \<noteq> NaN \<and> a \<noteq> NaN \<and> b \<noteq> NaN)
   \<and> extractDataFromText [] =
       \<lparr>day = Num 0, month = Num 0, time = [], period = [], sys = Num 0, dia = Num 0, pulse = Num 0\<rparr>"
  using extract_total [of "[]"] run_empty by blast

text \<open>
  C2. For every input string, each numeric field of the returned record is the sentinel
  0 or in its final range: day 1 to 31, month 1 to 12, systolic 70 to 250, diastolic 40
  to 150, pulse 40 to 200.
\<close>

theorem range_invariant:
  "(day (extractDataFromText text) = Num 0 \<or> in_range 1 31 (day (extractDataFromText text)))
   \<and> (month (extractDataFromText text) = Num 0 \<or> in_range 1 12 (month (extractDataFromText text)))
   \<and> (sys (extractDataFromText text) = Num 0 \<or> in_range 70 250 (sys (extractDataFromText text)))
   \<and> (dia (extractDataFromText text) = Num 0 \<or> in_range 40 150 (dia (extractDataFromText text)))
   \<and> (pulse (extractDataFromText text) = Num 0 \<or> in_range 40 200 (pulse (extractDataFromText text)))"
  by (simp add: extractDataFromText_def Let_def validate_def keep_cases)

theorem range_invariant_witness:
  "in_range 1 31 (day (extractDataFromText ''7m 15d 12:30 pm sys 130 dia 85 pulse 70''))
   \<and> in_range 1 12 (month (extractDataFromText ''7m 15d 12:30 pm sys 130 dia 85 pulse 70''))
   \<and> in_range 70 250 (sys (extractDataFromText ''7m 15d 12:30 pm sys 130 dia 85 pulse 70''))
   \<and> in_range 40 150 (dia (extractDataFromText ''7m 15d 12:30 pm sys 130 dia 85 pulse 70''))
   \<and> in_range 40 200 (pulse (extractDataFromText ''7m 15d 12:30 pm sys 130 dia 85 pulse 70''))"
  using range_invariant [of "''7m 15d 12:30 pm sys 130 dia 85 pulse 70''"]
  by (simp add: run_date_example)

section \<open>Override or fallback\<close>

text \<open>
  C10. The layout override and the fallbacks by magnitude exclude each other. For every
  input whose normalized text holds \<^verbatim>\<open>sys\<close>, \<^verbatim>\<open>dia\<close> and \<^verbatim>\<open>pulse\<close>, the result is
  the validated state of the override, applied to what the field extractors found: the
  fallbacks do not run. For every other input it is the validated state of the two
  fallbacks: the override does not run.
\<close>

theorem override_or_fallback:
  "(lcd_layout (preprocessText text) \<longrightarrow>
      extractDataFromText text =
        validate (lcd_override (preprocessText text) (candidates (preprocessText text))))
   \<and> (\<not> lcd_layout (preprocessText text) \<longrightarrow>
      extractDataFromText text =
        validate (pulse_fallback (preprocessText text)
                   (bp_fallback (preprocessText text) (candidates (preprocessText text)))))"
  by (simp add: extractDataFromText_def Let_def positional_def)

theorem override_or_fallback_witness:
  "lcd_layout (preprocessText ''sys 144 dia 72 pulse 76'')
   \<and> extractDataFromText ''sys 144 dia 72 pulse 76'' =
       validate (lcd_override (preprocessText ''sys 144 dia 72 pulse 76'')
                  (candidates (preprocessText ''sys 144 dia 72 pulse 76'')))
   \<and> \<not> lcd_layout (preprocessText ''120 80 65'')
   \<and> extractDataFromText ''120 80 65'' =
       validate (pulse_fallback (preprocessText ''120 80 65'')
                  (bp_fallback (preprocessText ''120 80 65'') (candidates (preprocessText ''120 80 65''))))"
  using override_or_fallback [of "''sys 144 dia 72 pulse 76''"] override_or_fallback [of "''120 80 65''"]
    layout_labels no_labels
  by blast

section \<open>The layout override\<close>

lemma number_examples:
  "Number_js ''144'' = Num 144" "Number_js ''72'' = Num 72" "Number_js ''76'' = Num 76"
  by (simp_all only: run cong: lazy)

text \<open>
  C3. If the normalized text holds the three labels \<^verbatim>\<open>sys\<close>, \<^verbatim>\<open>dia\<close> and
  \<^verbatim>\<open>pulse\<close>, and its standalone numbers of two or three digits are exactly 144, 72 and
  76 in this order, none of them the hour or the minute of a clock token, then the
  record has systolic 144, diastolic 72 and pulse 76, whatever the cascades found.
\<close>

theorem layout_override:
  assumes "lcd_layout (preprocessText text)"
    and "match_g False re_num23 (preprocessText text) = [''144'', ''72'', ''76'']"
    and "Num 144 \<notin> set (time_values (preprocessText text))"
    and "Num 72 \<notin> set (time_values (preprocessText text))"
    and "Num 76 \<notin> set (time_values (preprocessText text))"
  shows "sys (extractDataFromText text) = Num 144
     \<and> dia (extractDataFromText text) = Num 72
     \<and> pulse (extractDataFromText text) = Num 76"
proof -
  let ?pt = "preprocessText text"
  have nums: "all_numbers re_num23 ?pt = [Num 144, Num 72, Num 76]"
    using assms(2) by (simp add: all_numbers_def number_examples)
  have sa: "standalone_numbers 40 250 ?pt = [Num 144, Num 72, Num 76]"
    using assms(3-5) by (simp add: standalone_numbers_def nums in_range_def arr_includes_def)
  have "lcd_override ?pt st = st\<lparr>sys := Num 144, dia := Num 72, pulse := Num 76\<rparr>" for st
    by (simp add: lcd_override_def sa idx_def)
  then show ?thesis
    using assms(1)
    by (simp add: extractDataFromText_def Let_def positional_def validate_def keep_def in_range_def)
qed

theorem layout_override_witness:
  "lcd_layout (preprocessText ''sys 144 dia 72 pulse 76'')
   \<and> match_g False re_num23 (preprocessText ''sys 144 dia 72 pulse 76'') = [''144'', ''72'', ''76'']
   \<and> Num 144 \<notin> set (time_values (preprocessText ''sys 144 dia 72 pulse 76''))
   \<and> Num 72 \<notin> set (time_values (preprocessText ''sys 144 dia 72 pulse 76''))
   \<and> Num 76 \<notin> set (time_values (preprocessText ''sys 144 dia 72 pulse 76''))
   \<and> pulse (candidates (preprocessText ''sys 144 dia 72 pulse 76'')) = Num 72
   \<and> sys (extractDataFromText ''sys 144 dia 72 pulse 76'') = Num 144
   \<and> dia (extractDataFromText ''sys 144 dia 72 pulse 76'') = Num 72
   \<and> pulse (extractDataFromText ''sys 144 dia 72 pulse 76'') = Num 76"
proof -
  have clock: "Num n \<notin> set (time_values (preprocessText ''sys 144 dia 72 pulse 76''))" for n
    by (simp add: layout_no_clock)
  from layout_override [OF layout_labels layout_numbers clock clock clock]
  show ?thesis
    using layout_labels layout_numbers clock layout_cascade_pulse by simp
qed

section \<open>Exclusion of the blood-pressure values from the pulse\<close>

lemma set_insert_cmp: "set (insert_cmp cmp x ys) = insert x (set ys)"
  by (induction ys) auto

lemma set_js_sort: "set (js_sort cmp xs) = set xs"
  by (induction xs) (auto simp: js_sort_def set_insert_cmp)

lemma in_range_positive: "in_range lo hi x \<Longrightarrow> 0 < lo \<Longrightarrow> gt_c x 0"
  by (cases x) (auto simp: in_range_def)

lemma exclude_bp_sys: "c \<in> set (exclude_bp st ns) \<Longrightarrow> gt_c c 0 \<Longrightarrow> c \<noteq> sys st \<and> c \<noteq> dia st"
  by (auto simp: exclude_bp_def arr_includes_def Let_def split: if_splits)

lemma pulse_fallback_excludes:
  "pulse (pulse_fallback pt st) = pulse st
   \<or> (pulse (pulse_fallback pt st) \<noteq> sys st \<and> pulse (pulse_fallback pt st) \<noteq> dia st)"
proof (cases "falsy (pulse st)")
  case False
  then show ?thesis by (simp add: pulse_fallback_def)
next
  case True
  let ?ns = "filter (in_range 40 200) (all_numbers re_num23 pt)"
  show ?thesis
  proof (cases "js_sort sub_sign (exclude_bp st ?ns)")
    case Nil
    then show ?thesis using True by (simp add: pulse_fallback_def)
  next
    case (Cons c cs)
    then have "c \<in> set (js_sort sub_sign (exclude_bp st ?ns))" by simp
    then have mem: "c \<in> set (exclude_bp st ?ns)" by (simp add: set_js_sort)
    then have "c \<in> set ?ns" by (auto simp: exclude_bp_def)
    then have "gt_c c 0" by (auto intro: in_range_positive)
    with mem have "c \<noteq> sys st \<and> c \<noteq> dia st" by (rule exclude_bp_sys)
    then show ?thesis using True Cons by (simp add: pulse_fallback_def)
  qed
qed

lemma coc_table: "str_includes pt ''coc'' \<Longrightarrow> misread_loop 40 200 pt ocrMisreads v = Num 71"
  by (simp add: ocrMisreads_def in_range_def)

lemma pulse_coc_table: "pulse (pulse_coc pt st) = pulse st \<or> pulse (pulse_coc pt st) = Num 71"
  by (simp add: pulse_coc_def coc_table)

lemma pulse_fallback_keeps: "sys (pulse_fallback pt st) = sys st" "dia (pulse_fallback pt st) = dia st"
  by (simp_all add: pulse_fallback_def split: list.split)

text \<open>
  C6. A number already assigned to the systolic or the diastolic value is never also
  assigned to the pulse by a fallback pass. The statement holds for every text and every
  state of the variables, so for those every input reaches. The generic pulse fallback
  either leaves the pulse or assigns a number different from the systolic and the
  diastolic value. The pass for the misread \<^verbatim>\<open>coc\<close> either leaves the pulse or assigns
  71, the value of its lookup table: the first key of the table is \<^verbatim>\<open>coc\<close> itself, so
  the table always answers and the search in the window around \<^verbatim>\<open>coc\<close> never starts.
\<close>

theorem pulse_exclusion:
  "(pulse (pulse_fallback pt st) = pulse st
     \<or> (pulse (pulse_fallback pt st) \<noteq> sys (pulse_fallback pt st)
         \<and> pulse (pulse_fallback pt st) \<noteq> dia (pulse_fallback pt st)))
   \<and> (pulse (pulse_coc pt st) = pulse st \<or> pulse (pulse_coc pt st) = Num 71)"
  using pulse_fallback_excludes [of pt st] pulse_coc_table [of pt st]
  by (simp add: pulse_fallback_keeps)

theorem pulse_exclusion_witness:
  "pulse (bp_fallback (preprocessText ''120 80 65'') (candidates (preprocessText ''120 80 65''))) = Num 0
   \<and> pulse (pulse_fallback (preprocessText ''120 80 65'')
        (bp_fallback (preprocessText ''120 80 65'') (candidates (preprocessText ''120 80 65'')))) = Num 65
   \<and> sys (bp_fallback (preprocessText ''120 80 65'') (candidates (preprocessText ''120 80 65''))) = Num 120
   \<and> dia (bp_fallback (preprocessText ''120 80 65'') (candidates (preprocessText ''120 80 65''))) = Num 80"
  using pulse_exclusion [of "preprocessText ''120 80 65''"
      "bp_fallback (preprocessText ''120 80 65'') (candidates (preprocessText ''120 80 65''))"]
  by (simp add: fallback_state fallback_pulse)

section \<open>Priority of the labelled systolic value\<close>

lemma sys_set_if_unset: "sys (set_if_unset m d st) = sys st"
  by (simp add: set_if_unset_def Let_def)

lemma sys_date_token: "sys (date_token st tok) = sys st"
  by (simp add: date_token_def Let_def)

lemma sys_foldl_date_token: "sys (foldl date_token st toks) = sys st"
  by (induction toks arbitrary: st) (simp_all add: sys_date_token)

lemma sys_date_pass2: "sys (date_pass2 pt ps st) = sys st"
  by (induction ps) (simp_all add: sys_set_if_unset Let_def split: list.split)

lemma sys_date_from_sorted: "sys (date_from_sorted ns st) = sys st"
  by (simp add: date_from_sorted_def Let_def)

lemma sys_date_pass4: "sys (date_pass4 pt ps st) = sys st"
  by (induction ps) (simp_all add: sys_set_if_unset Let_def split: list.split)

lemma sys_month_4d: "sys (month_4d pt st) = sys st"
  by (simp add: month_4d_def split: list.split)

lemma sys_combined_loop: "sys (combined_loop pt ps st) = sys st"
  by (induction ps arbitrary: st) (simp_all add: Let_def split: option.split)

lemma sys_month_day: "sys (month_day pt st) = sys st"
  by (simp add: month_day_def Let_def split: option.split)

lemma sys_date_correction: "sys (date_correction pt st e) = sys st"
  by (simp add: date_correction_def split: prod.split)

lemma sys_foldl_date_correction: "sys (foldl (date_correction pt) st es) = sys st"
  by (induction es arbitrary: st) (simp_all add: sys_date_correction)

lemma sys_date_pass5: "sys (date_pass5 pt st) = sys st"
  by (simp add: date_pass5_def Let_def date_corrections_def sys_foldl_date_correction
      sys_month_day sys_combined_loop sys_month_4d)

lemma sys_if: "sys (if c then a else b) = (if c then sys a else sys b)"
  by simp

lemma sys_date_pass1: "sys (date_pass1 pt st) = sys st"
  by (simp add: date_pass1_def sys_foldl_date_token)

lemma sys_date_pass3: "sys (date_pass3 pt st) = sys st"
  by (simp add: date_pass3_def Let_def sys_date_from_sorted)

lemma sys_date_pass6: "sys (date_pass6 pt st) = sys st"
  by (simp add: date_pass6_def Let_def sys_date_from_sorted)

lemma sys_date_recovery: "sys (date_recovery pt st) = sys st"
  by (simp only: date_recovery_def Let_def sys_if sys_date_pass1 sys_date_pass2 sys_date_pass3
      sys_date_pass4 sys_date_pass5 sys_date_pass6 if_cancel)

lemma sys_extract_date: "sys (extract_date pt st) = sys st"
  by (simp add: extract_date_def sys_date_recovery)

lemma sys_time_loop: "sys (time_loop pt ps st) = sys st"
  by (induction ps) (simp_all add: time_from_match_def split: option.split)

lemma sys_time_like_loop: "sys (time_like_loop pt ps st) = sys st"
  by (induction ps) (simp_all split: list.split)

lemma sys_time_pairs: "sys (time_pairs ns st) = sys st"
  by (induction ns st rule: time_pairs.induct) simp_all

lemma sys_extract_time: "sys (extract_time pt st) = sys st"
  by (simp add: extract_time_def Let_def time_numbers_def sys_time_loop sys_time_like_loop sys_time_pairs)

lemma sys_extract_dia: "sys (extract_dia pt st) = sys st"
  by (simp add: extract_dia_def dia_correction_def dia_percentage_def Let_def
      split: list.split option.split)

lemma sys_coc_window: "sys (coc_window pt st) = sys st"
  by (simp add: coc_window_def Let_def split: list.split)

lemma sys_pulse_third: "sys (pulse_third pt st) = sys st"
  by (simp add: pulse_third_def Let_def)

lemma sys_pulse_label_area: "sys (pulse_label_area pt st) = sys st"
  by (simp add: pulse_label_area_def split: list.split)

lemma sys_coc_positional: "sys (coc_positional pt st) = sys st"
  by (simp add: coc_positional_def sys_pulse_label_area sys_pulse_third)

lemma sys_pulse_coc: "sys (pulse_coc pt st) = sys st"
  by (simp add: pulse_coc_def Let_def sys_coc_positional sys_coc_window)

lemma sys_extract_pulse: "sys (extract_pulse pt st) = sys st"
  by (simp add: extract_pulse_def sys_pulse_coc)

lemma sys_period_loop: "sys (period_loop pt ps st) = sys st"
  by (induction ps) (simp_all split: option.split)

lemma sys_pulse_fallback: "sys (pulse_fallback pt st) = sys st"
  by (simp add: pulse_fallback_def split: list.split)

lemma sys_bp_fallback: "\<not> falsy (sys st) \<Longrightarrow> sys (bp_fallback pt st) = sys st"
  by (simp add: bp_fallback_def Let_def truthy_def split: option.split)

lemma first_in_range_cases:
  "first_in_range lo hi pt ps v = v \<or> in_range lo hi (first_in_range lo hi pt ps v)"
  by (induction ps) (auto split: option.split)

lemma high_not_low: "ge_c v 100 \<Longrightarrow> \<not> falsy v \<and> \<not> lt_c v 100"
  by (cases v) auto

text \<open>
  C5. The claim: whenever the text holds a labelled systolic pattern with a number from
  70 to 250 and an unrelated number in range next to no label, the systolic value
  returned is the labelled one. It fails in two ways. In \<^verbatim>\<open>sys 85 and then later 120\<close>
  the cascade finds 85, which is below 100, so the correction pass runs and takes 120.
  In \<^verbatim>\<open>99 xx sys 120 dia 80 pulse 70\<close> the cascade finds 120, and the layout override,
  which all three labels trigger, replaces it by the first standalone number, 99.
\<close>

theorem labelled_systolic_counterexample:
  "first_in_range 70 250 (preprocessText ''sys 85 and then later 120'') patterns_systolic (Num 0) = Num 85
   \<and> sys (extractDataFromText ''sys 85 and then later 120'') = Num 120
   \<and> first_in_range 70 250 (preprocessText ''99 xx sys 120 dia 80 pulse 70'') patterns_systolic (Num 0) = Num 120
   \<and> sys (extractDataFromText ''99 xx sys 120 dia 80 pulse 70'') = Num 99"
  by (simp only: run cong: lazy)

text \<open>
  C5, as amended. If the first pattern of the systolic cascade whose number is from 70
  to 250 gives a number of at least 100, and the normalized text does not hold all three
  labels \<^verbatim>\<open>sys\<close>, \<^verbatim>\<open>dia\<close> and \<^verbatim>\<open>pulse\<close>, then the systolic value returned is that
  number, whatever other numbers the text holds.
\<close>

theorem labelled_systolic_wins:
  assumes v: "first_in_range 70 250 (preprocessText text) patterns_systolic (Num 0) = v"
    and high: "ge_c v 100"
    and no_layout: "\<not> lcd_layout (preprocessText text)"
  shows "sys (extractDataFromText text) = v"
proof -
  let ?pt = "preprocessText text"
  let ?st0 = "extract_time ?pt (extract_date ?pt initial)"
  have zero: "sys ?st0 = Num 0"
    by (simp add: sys_extract_time sys_extract_date initial_def)
  have firm: "\<not> falsy v \<and> \<not> lt_c v 100"
    using high by (rule high_not_low)
  have "sys (extract_sys ?pt ?st0) = v"
    using v firm by (simp add: extract_sys_def zero sys_correction_def low_sys_def)
  then have cand: "sys (candidates ?pt) = v"
    by (simp add: candidates_def extract_period_def sys_period_loop sys_extract_pulse sys_extract_dia)
  have "sys (positional ?pt (candidates ?pt)) = v"
    using no_layout firm cand by (simp add: positional_def sys_pulse_fallback sys_bp_fallback)
  moreover have "in_range 70 250 v"
    using first_in_range_cases [of 70 250 ?pt patterns_systolic "Num 0"] v firm by auto
  ultimately show ?thesis
    by (simp add: extractDataFromText_def Let_def validate_def keep_def)
qed

theorem labelled_systolic_wins_witness:
  "first_in_range 70 250 (preprocessText ''sys 130 and then later 120'') patterns_systolic (Num 0) = Num 130
   \<and> ge_c (Num 130) 100
   \<and> \<not> lcd_layout (preprocessText ''sys 130 and then later 120'')
   \<and> sys (extractDataFromText ''sys 130 and then later 120'') = Num 130"
proof -
  have high: "ge_c (Num 130) 100" by simp
  from labelled_systolic_wins [OF labelled_130 high labelled_130_no_layout]
  show ?thesis using labelled_130 labelled_130_no_layout by simp
qed

section \<open>Normalizing twice\<close>

lemma str_match_sub:
  "(cs, t, pv', xs') \<in> set (str_match ci s pv xs) \<Longrightarrow>
     set t \<subseteq> set xs \<and> set xs' \<subseteq> set xs \<and> cs = []"
proof (induction ci s pv xs arbitrary: t pv' xs' rule: str_match.induct)
  case (3 ci a as pv x xs)
  then show ?case by (fastforce split: if_splits)
qed auto

lemma rep_cls_sub:
  "(cs, t, pv', xs') \<in> set (rep_cls ci k lo hi pv xs) \<Longrightarrow>
     set t \<subseteq> set xs \<and> set xs' \<subseteq> set xs \<and> cs = []"
proof (induction xs arbitrary: lo hi pv t pv' xs')
  case Nil
  then show ?case by (auto split: if_splits)
next
  case (Cons x xs)
  then show ?case by (fastforce split: if_splits)
qed

lemma rmatch_sub:
  "(cs, t, pv', xs') \<in> set (rmatch ci r pv xs) \<Longrightarrow>
     set t \<subseteq> set xs \<and> set xs' \<subseteq> set xs \<and> (\<forall>c\<in>set cs. set c \<subseteq> set xs)"
proof (induction r arbitrary: cs t pv' xs' pv xs)
  case (Chr k)
  then show ?case by (cases xs) (auto split: if_splits)
next
  case (Str s)
  then show ?case using str_match_sub [of cs t pv' xs' ci s pv xs] by auto
next
  case (Seq a b)
  from Seq.prems obtain cs1 t1 pv1 xs1 cs2 t2 where
    a: "(cs1, t1, pv1, xs1) \<in> set (rmatch ci a pv xs)" and
    b: "(cs2, t2, pv', xs') \<in> set (rmatch ci b pv1 xs1)" and
    eq: "cs = cs1 @ cs2" "t = t1 @ t2"
    by auto
  from Seq.IH(1) [OF a] Seq.IH(2) [OF b] eq show ?case by (auto; blast)
next
  case (Alt a b)
  then have "(cs, t, pv', xs') \<in> set (rmatch ci a pv xs) \<or> (cs, t, pv', xs') \<in> set (rmatch ci b pv xs)"
    by simp
  then show ?case using Alt.IH by blast
next
  case (Rep lo hi k)
  then show ?case using rep_cls_sub [of cs t pv' xs' ci k lo hi pv xs] by auto
next
  case (Grp a)
  from Grp.prems obtain cs0 where a: "(cs0, t, pv', xs') \<in> set (rmatch ci a pv xs)" and eq: "cs = t # cs0"
    by auto
  from Grp.IH [OF a] eq show ?case by auto
next
  case WordB
  then show ?case by (auto split: if_splits)
qed

lemma match_at_sub: "match_at ci r pv xs = Some m \<Longrightarrow> \<forall>t\<in>set m. set t \<subseteq> set xs"
proof -
  assume m: "match_at ci r pv xs = Some m"
  then obtain cs t pv' xs' rest where r: "rmatch ci r pv xs = (cs, t, pv', xs') # rest" and eq: "m = t # cs"
    by (auto simp: match_at_def split: list.splits)
  from r have "(cs, t, pv', xs') \<in> set (rmatch ci r pv xs)" by simp
  from rmatch_sub [OF this] eq show ?thesis by auto
qed

lemma subst_pred:
  assumes emit: "\<And>pv x xs'. Q x \<Longrightarrow>
        (case match_at ci r pv (x # xs') of None \<Rightarrow> True | Some m \<Rightarrow> whole m = []) \<Longrightarrow> P x"
    and repl: "\<And>m. (\<forall>t\<in>set m. \<forall>c\<in>set t. Q c) \<Longrightarrow> (\<forall>c\<in>set (f m). P c)"
    and inv: "\<forall>c\<in>set xs. Q c"
  shows "\<forall>c\<in>set (subst ci r f skip pv xs). P c"
  using inv
proof (induction xs arbitrary: skip pv)
  case Nil
  show ?case
  proof (cases "match_at ci r pv []")
    case None
    then show ?thesis by (simp cong del: if_weak_cong)
  next
    case (Some m)
    have "\<forall>t\<in>set m. \<forall>c\<in>set t. Q c"
      using match_at_sub [OF Some] by auto
    then have "\<forall>c\<in>set (f m). P c" by (rule repl)
    then show ?thesis using Some by (simp cong del: if_weak_cong)
  qed
next
  case (Cons x xs)
  have tl: "\<forall>c\<in>set (subst ci r f k p xs). P c" for k p
    using Cons by simp
  have qx: "Q x" using Cons.prems by simp
  show ?case
  proof (cases "0 < skip")
    case True
    then show ?thesis using tl by simp
  next
    case False
    show ?thesis
    proof (cases "match_at ci r pv (x # xs)")
      case None
      then have "P x" using emit [OF qx, of pv xs] by simp
      then show ?thesis using None False tl by simp
    next
      case (Some m)
      have "\<forall>t\<in>set m. \<forall>c\<in>set t. Q c"
        using match_at_sub [OF Some] Cons.prems by blast
      then have fm: "\<forall>c\<in>set (f m). P c" by (rule repl)
      show ?thesis
      proof (cases "whole m = []")
        case True
        then have "P x" using emit [OF qx, of pv xs] Some by simp
        then show ?thesis using Some False True tl fm by auto
      next
        case nonempty: False
        then show ?thesis using Some False tl fm by auto
      qed
    qed
  qed
qed

lemma replace_pred:
  assumes "\<And>pv x xs'. Q x \<Longrightarrow>
        (case match_at ci r pv (x # xs') of None \<Rightarrow> True | Some m \<Rightarrow> whole m = []) \<Longrightarrow> P x"
    and "\<And>m. (\<forall>t\<in>set m. \<forall>c\<in>set t. Q c) \<Longrightarrow> (\<forall>c\<in>set (f m). P c)"
    and "\<forall>c\<in>set s. Q c"
  shows "\<forall>c\<in>set (replace_g ci r f s). P c"
  unfolding replace_g_def using assms by (rule subst_pred)

text \<open>A replacement that keeps a property of the characters.\<close>

lemma replace_keeps:
  assumes "\<And>m. (\<forall>t\<in>set m. \<forall>c\<in>set t. P c) \<Longrightarrow> (\<forall>c\<in>set (f m). P c)"
    and "\<forall>c\<in>set s. P c"
  shows "\<forall>c\<in>set (replace_g ci r f s). P c"
  using _ assms by (rule replace_pred)

lemma cap_chars: "(\<forall>t\<in>set m. \<forall>c\<in>set t. P c) \<Longrightarrow> \<forall>c\<in>set (cap m i). P c"
proof (induction m arbitrary: i)
  case Nil
  then show ?case by (simp add: cap_def)
next
  case (Cons a m)
  then show ?case by (cases "i = 0") (auto simp: cap_def split: option.splits)
qed

lemma rep_cls_zero: "rep_cls ci k 0 hi pv xs \<noteq> []"
  by (cases xs) simp_all

lemma ws_match:
  assumes "is_space x"
  shows "\<exists>m. match_at False ws1 pv (x # xs) = Some m \<and> whole m \<noteq> []"
proof -
  obtain cs t pv' xs' rest where r: "rep_cls False (In [Space]) 0 None (Some x) xs = (cs, t, pv', xs') # rest"
    using rep_cls_zero [of False "In [Space]" None "Some x" xs]
    by (cases "rep_cls False (In [Space]) 0 None (Some x) xs") auto
  then show ?thesis using assms
    by (simp add: match_at_def ws1_def whole_def)
qed

lemma stage1_chars: "\<forall>c\<in>set (replace_g False ws1 (\<lambda>m. '' '') s). \<not> is_space c \<or> c = CHR '' ''"
proof (rule replace_pred [where Q = "\<lambda>c. True"])
  fix pv x xs'
  assume "case match_at False ws1 pv (x # xs') of None \<Rightarrow> True | Some m \<Rightarrow> whole m = []"
  then have "\<not> is_space x" using ws_match [of x pv xs'] by (auto split: option.splits)
  then show "\<not> is_space x \<or> x = CHR '' ''" by simp
qed simp_all

lemma stage2_chars:
  assumes "\<forall>c\<in>set s. \<not> is_space c \<or> c = CHR '' ''"
  shows "\<forall>c\<in>set (replace_g False re_noise (\<lambda>m. '' '') s). kept_char c"
proof (rule replace_pred [where Q = "\<lambda>c. \<not> is_space c \<or> c = CHR '' ''"])
  fix pv x xs'
  assume q: "\<not> is_space x \<or> x = CHR '' ''"
    and "case match_at False re_noise pv (x # xs') of None \<Rightarrow> True | Some m \<Rightarrow> whole m = []"
  then show "kept_char x"
    by (auto simp: match_at_def re_noise_def whole_def kept_char_def split: if_splits)
next
  fix m :: "string list"
  show "\<forall>c\<in>set '' ''. kept_char c" by (simp add: kept_char_def)
next
  show "\<forall>c\<in>set s. \<not> is_space c \<or> c = CHR '' ''" by (rule assms)
qed


lemma kept_literals:
  "\<forall>c\<in>set ''sys ''. kept_char c" "\<forall>c\<in>set ''dia ''. kept_char c" "\<forall>c\<in>set ''s ''. kept_char c"
  "\<forall>c\<in>set ''d ''. kept_char c" "\<forall>c\<in>set ''mmhg''. kept_char c" "\<forall>c\<in>set ''7m''. kept_char c"
  by (simp_all add: kept_char_def is_word_def code_def)

lemma keep_const:
  assumes "\<forall>c\<in>set lit. P c" and "\<forall>c\<in>set s. P c"
  shows "\<forall>c\<in>set (replace_g ci r (\<lambda>m. lit) s). P c"
proof (rule replace_keeps)
  fix m :: "string list"
  show "\<forall>c\<in>set lit. P c" by (rule assms(1))
next
  show "\<forall>c\<in>set s. P c" by (rule assms(2))
qed

lemma keep_cap:
  assumes "\<forall>c\<in>set lit. P c" and "\<forall>c\<in>set s. P c"
  shows "\<forall>c\<in>set (replace_g ci r (\<lambda>m. lit @ cap m 1) s). P c"
proof (rule replace_keeps)
  fix m :: "string list"
  assume "\<forall>t\<in>set m. \<forall>c\<in>set t. P c"
  then have "\<forall>c\<in>set (cap m 1). P c" by (rule cap_chars)
  then show "\<forall>c\<in>set (lit @ cap m 1). P c" using assms(1) by auto
next
  show "\<forall>c\<in>set s. P c" by (rule assms(2))
qed

lemma keep_cap0:
  assumes "\<forall>c\<in>set s. P c"
  shows "\<forall>c\<in>set (replace_g ci r (\<lambda>m. cap m 1) s). P c"
  using keep_cap [of "[]" P s ci r] assms by simp

lemma kept_after_stages: "\<forall>c\<in>set s. kept_char c \<Longrightarrow>
  \<forall>c\<in>set (replace_g c15 r15 (\<lambda>m. ''7m'')
   (replace_g c14 r14 (\<lambda>m. ''7m'')
   (replace_g c13 r13 (\<lambda>m. ''7m'')
   (replace_g c12 r12 (\<lambda>m. ''7m'')
   (replace_g c11 r11 (\<lambda>m. [])
   (replace_g c10 r10 (\<lambda>m. [])
   (replace_g c9 r9 (\<lambda>m. [])
   (replace_g c8 r8 (\<lambda>m. ''mmhg'')
   (replace_g c7 r7 (\<lambda>m. ''d '' @ cap m 1)
   (replace_g c6 r6 (\<lambda>m. ''s '' @ cap m 1)
   (replace_g c5 r5 (\<lambda>m. ''dia '' @ cap m 1)
   (replace_g c4 r4 (\<lambda>m. ''sys '' @ cap m 1)
   (replace_g c3 r3 (\<lambda>m. cap m 1) s))))))))))))). kept_char c"
  by (intro keep_const keep_cap keep_cap0 kept_literals) simp_all

lemma lower_kept: "kept_char c \<Longrightarrow> normal_char (lower_char c)"
proof (cases c)
  case (Char b0 b1 b2 b3 b4 b5 b6 b7)
  assume "kept_char c"
  then show ?thesis unfolding Char
    by (cases b0; cases b1; cases b2; cases b3; cases b4; cases b5; cases b6; cases b7;
        simp add: kept_char_def normal_char_def is_word_Char is_digit_Char lower_char_Char code_def)
qed

lemma normal_lower: "normal_char c \<Longrightarrow> lower_char c = c"
proof (cases c)
  case (Char b0 b1 b2 b3 b4 b5 b6 b7)
  assume "normal_char c"
  then show ?thesis unfolding Char
    by (cases b0; cases b1; cases b2; cases b3; cases b4; cases b5; cases b6; cases b7;
        simp add: normal_char_def is_digit_Char lower_char_Char code_def)
qed

lemma normal_no_noise: "normal_char c \<Longrightarrow> \<not> cls_has False (NotIn [Word, Space, Lit CHR ''/'', Lit CHR ''-'', Lit CHR '':'', Lit CHR ''.'']) c"
proof (cases c)
  case (Char b0 b1 b2 b3 b4 b5 b6 b7)
  assume "normal_char c"
  then show ?thesis unfolding Char
    by (cases b0; cases b1; cases b2; cases b3; cases b4; cases b5; cases b6; cases b7;
        simp add: normal_char_def is_digit_Char is_word_Char is_space_Char code_def)
qed

lemma map_pred: "\<forall>c\<in>set xs. P c \<Longrightarrow> (\<And>c. P c \<Longrightarrow> Q (f c)) \<Longrightarrow> \<forall>c\<in>set (map f xs). Q c"
  by auto

lemma normalized_chars: "\<forall>c\<in>set (preprocessText s). normal_char c"
proof -
  have k2: "\<forall>c\<in>set (replace_g False re_noise (\<lambda>m. '' '') (replace_g False ws1 (\<lambda>m. '' '') s)). kept_char c"
    by (rule stage2_chars) (rule stage1_chars)
  show ?thesis
    unfolding preprocessText_def Let_def toLowerCase_def
  proof (rule map_pred [where P = kept_char])
    show "\<forall>c\<in>set (replace_g True (seqs [WordB, Str ''mid'', WordB]) (\<lambda>m. ''7m'')
           (replace_g True (seqs [WordB, Str ''c9'', WordB]) (\<lambda>m. ''7m'')
           (replace_g True (seqs [WordB, Str ''c1'', WordB]) (\<lambda>m. ''7m'')
           (replace_g True (seqs [WordB, Str ''cm'', WordB]) (\<lambda>m. ''7m'')
           (replace_g False (seqs [WordB, Str ''%'', WordB]) (\<lambda>m. [])
           (replace_g False (seqs [WordB, Str ''+'', WordB]) (\<lambda>m. [])
           (replace_g False (seqs [WordB, Str ''1+'', WordB]) (\<lambda>m. [])
           (replace_g True (seqs [WordB, Str ''minig'', WordB]) (\<lambda>m. ''mmhg'')
           (replace_g True (seqs [WordB, Str ''d'', Grp (digits 2 3), WordB]) (\<lambda>m. ''d '' @ cap m 1)
           (replace_g True (seqs [WordB, Str ''s'', Grp (digits 2 3), WordB]) (\<lambda>m. ''s '' @ cap m 1)
           (replace_g True (seqs [WordB, Str ''dia'', Grp (digits 2 3), WordB]) (\<lambda>m. ''dia '' @ cap m 1)
           (replace_g True (seqs [WordB, Str ''sys'', Grp (digits 2 3), WordB]) (\<lambda>m. ''sys '' @ cap m 1)
           (replace_g False (seqs [WordB, Str ''0'', Grp (Chr (In [Digit])), WordB]) (\<lambda>m. cap m 1)
           (replace_g False re_noise (\<lambda>m. '' '') (replace_g False ws1 (\<lambda>m. '' '') s))))))))))))))). kept_char c"
      by (rule kept_after_stages) (rule k2)
  qed (rule lower_kept)
qed

lemma no_noise_fixed:
  "\<forall>c\<in>set xs. \<not> cls_has ci k c \<Longrightarrow> subst ci (Chr k) f 0 pv xs = xs"
  by (induction xs arbitrary: pv) (simp_all add: match_at_def)

text \<open>
  C4. The claim: normalizing twice gives the same text as normalizing once. Two noise
  characters become two spaces, since white space is collapsed before the noise is
  replaced, and a second pass collapses them; and \<^verbatim>\<open>d07\<close> becomes \<^verbatim>\<open>d 07\<close>, whose
  zero a second pass removes.
\<close>

theorem normalize_twice_counterexample:
  "preprocessText (preprocessText ''!!'') \<noteq> preprocessText ''!!''
   \<and> preprocessText (preprocessText ''d07'') \<noteq> preprocessText ''d07''"
  by (simp only: run cong: lazy)

text \<open>
  C4, as amended. For every string the normalized text holds only lower-case letters,
  digits, the underscore, the space and the separators \<^verbatim>\<open>/ - : .\<close>; so the two stages
  that strip noise and put the text in lower case change nothing when they are applied
  to it again.
\<close>

theorem normalized_text_canonical:
  "list_all normal_char (preprocessText s)
   \<and> toLowerCase (preprocessText s) = preprocessText s
   \<and> replace_g False re_noise (\<lambda>m. '' '') (preprocessText s) = preprocessText s"
proof (intro conjI)
  show "list_all normal_char (preprocessText s)"
    using normalized_chars [of s] by (simp add: list_all_iff)
  show "toLowerCase (preprocessText s) = preprocessText s"
    using normalized_chars [of s] by (auto simp: toLowerCase_def normal_lower intro: map_idI)
  show "replace_g False re_noise (\<lambda>m. '' '') (preprocessText s) = preprocessText s"
    unfolding replace_g_def re_noise_def
  proof (rule no_noise_fixed)
    show "\<forall>c\<in>set (preprocessText s).
        \<not> cls_has False (NotIn [Word, Space, Lit CHR ''/'', Lit CHR ''-'', Lit CHR '':'', Lit CHR ''.'']) c"
      using normalized_chars [of s] normal_no_noise by blast
  qed
qed

theorem normalized_text_canonical_witness:
  "list_all normal_char (preprocessText ''!!'')
   \<and> toLowerCase (preprocessText ''!!'') = preprocessText ''!!''
   \<and> replace_g False re_noise (\<lambda>m. '' '') (preprocessText ''!!'') = preprocessText ''!!''"
  by (rule normalized_text_canonical)

section \<open>The date fallback example\<close>

text \<open>
  C8. For the input text \<^verbatim>\<open>7m 15d 12:30 pm sys 130 dia 85 pulse 70\<close> the extraction
  returns month 7, day 15, time \<^verbatim>\<open>12:30\<close>, period \<^verbatim>\<open>PM\<close>, systolic 130, diastolic 85
  and pulse 70.
\<close>

theorem date_fallback_example:
  "extractDataFromText ''7m 15d 12:30 pm sys 130 dia 85 pulse 70'' =
     \<lparr>day = Num 15, month = Num 7, time = ''12:30'', period = ''PM'',
      sys = Num 130, dia = Num 85, pulse = Num 70\<rparr>"
  by (rule run_date_example)

theorem date_fallback_example_witness:
  "month (extractDataFromText ''7m 15d 12:30 pm sys 130 dia 85 pulse 70'') = Num 7
   \<and> pulse (extractDataFromText ''7m 15d 12:30 pm sys 130 dia 85 pulse 70'') = Num 70"
  using date_fallback_example by simp

section \<open>Period words\<close>

text \<open>
  C9. The claim: a text with the word \<^verbatim>\<open>morning\<close> and no other period signal gets the
  period \<^verbatim>\<open>AM\<close>, and one with \<^verbatim>\<open>afternoon\<close> gets \<^verbatim>\<open>PM\<close>. The period loop stops at
  the pattern that holds the word, and reads the first capture of the match; that
  pattern has no capture group, so the period is left empty. The theorem runs the
  program on the two words.
\<close>

theorem period_words_empty:
  "period (extractDataFromText ''morning'') = []
   \<and> period (extractDataFromText ''afternoon'') = []"
  by (simp only: run cong: lazy)

section \<open>The form of the time\<close>

text \<open>
  C7. The claim: the time returned is empty or of the form \<^verbatim>\<open>HH:MM\<close> with an hour up
  to 23 and a minute up to 59. The pattern for an hour with \<^verbatim>\<open>am\<close> or \<^verbatim>\<open>pm\<close> has
  two captures, so its match is formatted as hour and minute, with the period word read
  as the minute; and the first cascade does not test the ranges that the fallback
  tests. The theorem runs the program on \<^verbatim>\<open>7 am\<close> and on \<^verbatim>\<open>99:99\<close>.
\<close>

theorem time_not_valid:
  "time (extractDataFromText ''7 am'') = ''07:NaN''
   \<and> time (extractDataFromText ''99:99'') = ''99:99''"
  by (simp only: run cong: lazy)

end
